theory Spec2Isabelle
  imports Complex_Main "HOL-Library.Multiset"
begin

section \<open>JavaScript numbers\<close>

text \<open>
  The analytics functions of Scrynt compute on JavaScript numbers. A number is modelled
  as an exact real or one of the three special values that the arithmetic of the code can
  produce: \<open>NaN\<close> (from \<open>0 / 0\<close>, from \<open>Infinity - Infinity\<close>, from the square root of a
  negative number, from reading an array out of range) and the two infinities (from
  dividing a non-zero number by zero, and from \<open>Math.min()\<close> and \<open>Math.max()\<close> of no
  arguments). Finite arithmetic is exact, with one exception: the correlation is computed
  in binary64 as the code computes it (\<open>round64\<close> below), because its guard
  \<open>denominator === 0\<close> depends on the rounding. Elsewhere rounding to 64-bit doubles
  and overflow of finite values are outside the model; so is the sign of zero
  everywhere (a zero divisor counts as \<open>+0\<close>).

  A field of a stock record arrives from JSON as a number or \<open>null\<close>: \<open>real option\<close>.
  In arithmetic and in comparisons JavaScript converts \<open>null\<close> to \<open>0\<close> (\<open>to_num\<close>).
\<close>

datatype jsnum = Fin real | PInf | NInf | NaN

fun to_num :: "real option \<Rightarrow> jsnum" where
  "to_num None = Fin 0"
| "to_num (Some r) = Fin r"

fun js_neg :: "jsnum \<Rightarrow> jsnum" where
  "js_neg (Fin a) = Fin (- a)"
| "js_neg PInf = NInf"
| "js_neg NInf = PInf"
| "js_neg NaN = NaN"

fun js_add :: "jsnum \<Rightarrow> jsnum \<Rightarrow> jsnum" where
  "js_add (Fin a) (Fin b) = Fin (a + b)"
| "js_add NaN y = NaN"
| "js_add x NaN = NaN"
| "js_add PInf NInf = NaN"
| "js_add NInf PInf = NaN"
| "js_add PInf y = PInf"
| "js_add NInf y = NInf"
| "js_add (Fin a) y = y"

definition js_sub :: "jsnum \<Rightarrow> jsnum \<Rightarrow> jsnum" where
  "js_sub x y = js_add x (js_neg y)"

text \<open>The sign of a number that is not \<open>NaN\<close>; zero counts as positive.\<close>

fun js_nonneg :: "jsnum \<Rightarrow> bool" where
  "js_nonneg (Fin a) = (0 \<le> a)"
| "js_nonneg PInf = True"
| "js_nonneg NInf = False"
| "js_nonneg NaN = False"

definition js_inf :: "bool \<Rightarrow> jsnum" where
  "js_inf positive = (if positive then PInf else NInf)"

fun js_mul :: "jsnum \<Rightarrow> jsnum \<Rightarrow> jsnum" where
  "js_mul (Fin a) (Fin b) = Fin (a * b)"
| "js_mul NaN y = NaN"
| "js_mul x NaN = NaN"
| "js_mul (Fin a) y = (if a = 0 then NaN else js_inf ((0 < a) = js_nonneg y))"
| "js_mul x (Fin b) = (if b = 0 then NaN else js_inf (js_nonneg x = (0 < b)))"
| "js_mul x y = js_inf (js_nonneg x = js_nonneg y)"

fun js_div :: "jsnum \<Rightarrow> jsnum \<Rightarrow> jsnum" where
  "js_div (Fin a) (Fin b) =
     (if b = 0 then (if a = 0 then NaN else js_inf (0 < a)) else Fin (a / b))"
| "js_div NaN y = NaN"
| "js_div x NaN = NaN"
| "js_div (Fin a) y = Fin 0"
| "js_div x (Fin b) = js_inf (js_nonneg x = (0 \<le> b))"
| "js_div x y = NaN"

fun js_sqrt :: "jsnum \<Rightarrow> jsnum" where
  "js_sqrt (Fin a) = (if a < 0 then NaN else Fin (sqrt a))"
| "js_sqrt PInf = PInf"
| "js_sqrt NInf = NaN"
| "js_sqrt NaN = NaN"

fun js_abs :: "jsnum \<Rightarrow> jsnum" where
  "js_abs (Fin a) = Fin \<bar>a\<bar>"
| "js_abs PInf = PInf"
| "js_abs NInf = PInf"
| "js_abs NaN = NaN"

text \<open>\<open>Math.pow(x, n)\<close> for a natural exponent.\<close>

fun js_pow :: "jsnum \<Rightarrow> nat \<Rightarrow> jsnum" where
  "js_pow x 0 = Fin 1"
| "js_pow x (Suc n) = js_mul x (js_pow x n)"

text \<open>The comparisons \<open><\<close>, \<open>>\<close>, \<open><=\<close> and \<open>===\<close>: all false when an operand is \<open>NaN\<close>.\<close>

fun js_lt :: "jsnum \<Rightarrow> jsnum \<Rightarrow> bool" where
  "js_lt (Fin a) (Fin b) = (a < b)"
| "js_lt NaN y = False"
| "js_lt x NaN = False"
| "js_lt x NInf = False"
| "js_lt PInf y = False"
| "js_lt x y = True"

definition js_gt :: "jsnum \<Rightarrow> jsnum \<Rightarrow> bool" where
  "js_gt x y = js_lt y x"

definition js_eq :: "jsnum \<Rightarrow> jsnum \<Rightarrow> bool" where
  "js_eq x y = (x \<noteq> NaN \<and> x = y)"

definition js_le :: "jsnum \<Rightarrow> jsnum \<Rightarrow> bool" where
  "js_le x y = (js_lt x y \<or> js_eq x y)"

text \<open>\<open>Math.min\<close> and \<open>Math.max\<close>: \<open>NaN\<close> when an argument is \<open>NaN\<close>; of no arguments,
  \<open>Infinity\<close> and \<open>-Infinity\<close>.\<close>

definition js_min2 :: "jsnum \<Rightarrow> jsnum \<Rightarrow> jsnum" where
  "js_min2 x y = (if x = NaN \<or> y = NaN then NaN else if js_lt y x then y else x)"

definition js_max2 :: "jsnum \<Rightarrow> jsnum \<Rightarrow> jsnum" where
  "js_max2 x y = (if x = NaN \<or> y = NaN then NaN else if js_lt x y then y else x)"

definition Math_min :: "jsnum list \<Rightarrow> jsnum" where
  "Math_min xs = foldl js_min2 PInf xs"

definition Math_max :: "jsnum list \<Rightarrow> jsnum" where
  "Math_max xs = foldl js_max2 NInf xs"

text \<open>\<open>xs.reduce((a, b) => a + b, 0)\<close>.\<close>

definition js_sum :: "jsnum list \<Rightarrow> jsnum" where
  "js_sum xs = foldl js_add (Fin 0) xs"

section \<open>Binary64 arithmetic\<close>

text \<open>
  An IEEE 754 double is a real \<open>m * 2^e\<close> with \<open>|m| < 2^53\<close> and \<open>e \<ge> -1074\<close>.
  \<open>round64\<close> rounds a real to the nearest double, ties to the even mantissa: the
  quantum is \<open>2^(e - 52)\<close> for the binade \<open>2^e \<le> |x| < 2^(e+1)\<close>, and \<open>2^-1074\<close> below
  \<open>2^-1022\<close>; a result of magnitude \<open>2^1024\<close> or more is an infinity. Each operation
  \<open>d_add\<close>, \<open>d_sub\<close>, \<open>d_mul\<close>, \<open>d_div\<close>, \<open>d_sqrt\<close> is the exact operation followed
  by this rounding, which is what \<open>+\<close>, \<open>-\<close>, \<open>*\<close>, \<open>/\<close> and \<open>Math.sqrt\<close> compute on
  doubles. \<open>to_double\<close> reads a field as the double that parsing the JSON numeral
  gives.
\<close>

definition round_even :: "real \<Rightarrow> int" where
  "round_even x =
     (let f = \<lfloor>x\<rfloor>; r = x - of_int f
      in if r < 1 / 2 then f else if 1 / 2 < r then f + 1 else if even f then f else f + 1)"

definition round64 :: "real \<Rightarrow> jsnum" where
  "round64 x =
     (if x = 0 then Fin 0
      else
        let e = max (- 1022) \<lfloor>log 2 \<bar>x\<bar>\<rfloor>;
            q = 2 powr (of_int e - 52);
            r = of_int (round_even (x / q)) * q
        in if 2 ^ 1024 \<le> \<bar>r\<bar> then js_inf (0 < x) else Fin r)"

fun fl :: "jsnum \<Rightarrow> jsnum" where
  "fl (Fin r) = round64 r"
| "fl PInf = PInf"
| "fl NInf = NInf"
| "fl NaN = NaN"

definition d_add :: "jsnum \<Rightarrow> jsnum \<Rightarrow> jsnum" where
  "d_add x y = fl (js_add x y)"

definition d_sub :: "jsnum \<Rightarrow> jsnum \<Rightarrow> jsnum" where
  "d_sub x y = fl (js_sub x y)"

definition d_mul :: "jsnum \<Rightarrow> jsnum \<Rightarrow> jsnum" where
  "d_mul x y = fl (js_mul x y)"

definition d_div :: "jsnum \<Rightarrow> jsnum \<Rightarrow> jsnum" where
  "d_div x y = fl (js_div x y)"

definition d_sqrt :: "jsnum \<Rightarrow> jsnum" where
  "d_sqrt x = fl (js_sqrt x)"

definition to_double :: "real option \<Rightarrow> jsnum" where
  "to_double v = fl (to_num v)"

section \<open>Sorting with a comparator\<close>

text \<open>
  \<open>Array.prototype.sort(cmp)\<close> is stable, and places \<open>a\<close> after \<open>b\<close> only when
  \<open>cmp(a, b) > 0\<close>; a comparator result of \<open>NaN\<close> counts as \<open>0\<close>. For a consistent
  comparator the result is the one stable ordering of the input, which a stable
  insertion sort computes.
\<close>

fun js_insert :: "('a \<Rightarrow> 'a \<Rightarrow> jsnum) \<Rightarrow> 'a \<Rightarrow> 'a list \<Rightarrow> 'a list" where
  "js_insert cmp x [] = [x]"
| "js_insert cmp x (y # ys) =
     (if js_gt (cmp x y) (Fin 0) then y # js_insert cmp x ys else x # y # ys)"

definition js_sort :: "('a \<Rightarrow> 'a \<Rightarrow> jsnum) \<Rightarrow> 'a list \<Rightarrow> 'a list" where
  "js_sort cmp xs = foldr (js_insert cmp) xs []"

section \<open>Stock records\<close>

text \<open>
  \<open>StockData\<close> of \<open>services/stockService\<close>. The interface declares the numeric fields
  as \<open>number\<close>; the data holds \<open>null\<close> where the backend has no value, and the views
  test for it. The field \<open>name\<close> is \<open>company_name\<close> here.
\<close>

record StockData =
  ticker :: string
  company_name :: string
  sector :: string
  price :: "real option"
  market_cap :: "real option"
  change_1w :: "real option"
  change_1m :: "real option"
  change_6m :: "real option"
  change_ytd :: "real option"
  change_1y :: "real option"
  change_3y :: "real option"
  dividend_yield :: "real option"
  dividend_growth :: "real option"
  payout_ratio :: "real option"
  peg_ratio :: "real option"
  pb_ratio :: "real option"
  pe_forward :: "real option"
  eps_growth_3y :: "real option"
  revenue_growth_3y :: "real option"
  roe :: "real option"
  roa :: "real option"
  beta :: "real option"

section \<open>Normalization\<close>

text \<open>\<open>normalizeMetric\<close> of the composite score view: no guard on \<open>max = min\<close>.\<close>

definition normalizeMetric :: "jsnum \<Rightarrow> jsnum \<Rightarrow> jsnum \<Rightarrow> jsnum" where
  "normalizeMetric v mn mx = js_mul (js_div (js_sub v mn) (js_sub mx mn)) (Fin 100)"

section \<open>Composite score\<close>

text \<open>
  \<open>CompositeScore\<close> and \<open>ScoreComponents\<close> of the composite score view; the fields
  \<open>value\<close> \<dots> \<open>stability\<close> carry the prefix \<open>c_\<close>, \<open>ticker\<close> and \<open>sector\<close> the prefix
  \<open>cs_\<close>. \<open>MinMax\<close> and \<open>Metrics\<close> are the object literal \<open>metrics\<close>.
\<close>

record ScoreComponents =
  c_value :: jsnum
  c_growth :: jsnum
  c_quality :: jsnum
  c_momentum :: jsnum
  c_stability :: jsnum

record CompositeScore =
  cs_ticker :: string
  cs_sector :: string
  totalScore :: jsnum
  components :: ScoreComponents

record MinMax =
  mm_min :: jsnum
  mm_max :: jsnum

record Metrics =
  m_pe :: MinMax
  m_pb :: MinMax
  m_peg :: MinMax
  m_epsGrowth :: MinMax
  m_revGrowth :: MinMax
  m_roe :: MinMax
  m_roa :: MinMax
  m_momentum :: MinMax

text \<open>The filter of \<open>calculateCompositeScores\<close>: nine fields, each \<open>!== null\<close>.\<close>

definition validStock :: "StockData \<Rightarrow> bool" where
  "validStock stock =
     (pe_forward stock \<noteq> None \<and>
      pb_ratio stock \<noteq> None \<and>
      peg_ratio stock \<noteq> None \<and>
      eps_growth_3y stock \<noteq> None \<and>
      revenue_growth_3y stock \<noteq> None \<and>
      roe stock \<noteq> None \<and>
      roa stock \<noteq> None \<and>
      change_1y stock \<noteq> None \<and>
      beta stock \<noteq> None)"

definition minMaxOf :: "(StockData \<Rightarrow> real option) \<Rightarrow> StockData list \<Rightarrow> MinMax" where
  "minMaxOf field validStocks =
     \<lparr> mm_min = Math_min (map (\<lambda>s. to_num (field s)) validStocks),
       mm_max = Math_max (map (\<lambda>s. to_num (field s)) validStocks) \<rparr>"

definition cohortMetrics :: "StockData list \<Rightarrow> Metrics" where
  "cohortMetrics validStocks =
     \<lparr> m_pe = minMaxOf pe_forward validStocks,
       m_pb = minMaxOf pb_ratio validStocks,
       m_peg = minMaxOf peg_ratio validStocks,
       m_epsGrowth = minMaxOf eps_growth_3y validStocks,
       m_revGrowth = minMaxOf revenue_growth_3y validStocks,
       m_roe = minMaxOf roe validStocks,
       m_roa = minMaxOf roa validStocks,
       m_momentum = minMaxOf change_1y validStocks \<rparr>"

definition normalizeBy :: "real option \<Rightarrow> MinMax \<Rightarrow> jsnum" where
  "normalizeBy v m = normalizeMetric (to_num v) (mm_min m) (mm_max m)"

text \<open>The callback of \<open>validStocks.map\<close>.\<close>

definition scoreStock :: "Metrics \<Rightarrow> StockData \<Rightarrow> CompositeScore" where
  "scoreStock metrics stock =
     (let valueScore =
            js_div (js_add (js_add (js_sub (Fin 100) (normalizeBy (pe_forward stock) (m_pe metrics)))
                                   (js_sub (Fin 100) (normalizeBy (pb_ratio stock) (m_pb metrics))))
                           (js_sub (Fin 100) (normalizeBy (peg_ratio stock) (m_peg metrics))))
                   (Fin 3);
          growthScore =
            js_div (js_add (normalizeBy (eps_growth_3y stock) (m_epsGrowth metrics))
                           (normalizeBy (revenue_growth_3y stock) (m_revGrowth metrics)))
                   (Fin 2);
          qualityScore =
            js_div (js_add (normalizeBy (roe stock) (m_roe metrics))
                           (normalizeBy (roa stock) (m_roa metrics)))
                   (Fin 2);
          momentumScore = normalizeBy (change_1y stock) (m_momentum metrics);
          stabilityScore =
            js_sub (Fin 100) (js_mul (js_abs (js_sub (to_num (beta stock)) (Fin 1))) (Fin 50));
          comps = \<lparr> c_value = valueScore, c_growth = growthScore, c_quality = qualityScore,
                    c_momentum = momentumScore, c_stability = stabilityScore \<rparr>;
          total =
            js_add (js_add (js_add (js_add (js_mul valueScore (Fin 0.25))
                                           (js_mul growthScore (Fin 0.25)))
                                   (js_mul qualityScore (Fin 0.20)))
                           (js_mul momentumScore (Fin 0.15)))
                   (js_mul stabilityScore (Fin 0.15))
      in \<lparr> cs_ticker = ticker stock, cs_sector = sector stock,
           totalScore = total, components = comps \<rparr>)"

definition calculateCompositeScores :: "StockData list \<Rightarrow> CompositeScore list" where
  "calculateCompositeScores stocks =
     (let validStocks = filter validStock stocks;
          metrics = cohortMetrics validStocks
      in js_sort (\<lambda>a b. js_sub (totalScore b) (totalScore a))
           (map (scoreStock metrics) validStocks))"

section \<open>Sharpe ratio and risk-adjusted return\<close>

text \<open>\<open>computeSharpeRatio\<close> of \<open>utils/financialMetrics\<close>; \<open>null\<close> is \<open>None\<close>.\<close>

definition computeSharpeRatio :: "jsnum list \<Rightarrow> jsnum \<Rightarrow> jsnum option" where
  "computeSharpeRatio returns riskFreeRate =
     (if length returns = 0 then None
      else
        let periodicRiskFreeRate = js_div riskFreeRate (Fin 12);
            excessReturns = map (\<lambda>r. js_sub r periodicRiskFreeRate) returns;
            avgExcessReturn =
              js_div (js_sum excessReturns) (Fin (real (length excessReturns)));
            squaredDiffs = map (\<lambda>r. js_pow (js_sub r avgExcessReturn) 2) excessReturns;
            variance =
              js_div (js_sum squaredDiffs) (Fin (real (length excessReturns) - 1));
            stdDev = js_sqrt variance
        in if js_lt stdDev (Fin 0.0001) then None
           else Some (js_mul (js_div avgExcessReturn stdDev) (js_sqrt (Fin 12))))"

text \<open>
  \<open>calculateRiskReturnMetrics\<close> of \<open>utils/financialMetrics\<close>, under the name the risk
  view imports it by, and its result type \<open>RiskReturnMetrics\<close> (fields prefixed \<open>fm_\<close>).
  The three quotients are numbers, so \<open>.filter(r => r !== null)\<close> keeps all of them.
  \<open>stock.beta && stock.beta !== 0\<close> holds for a number other than zero.
\<close>

record StockMetrics =
  fm_annualReturn :: jsnum
  fm_riskAdjustedReturn :: "jsnum option"
  fm_sharpeRatio :: "jsnum option"

definition calculateStockMetrics :: "StockData \<Rightarrow> jsnum \<Rightarrow> StockMetrics" where
  "calculateStockMetrics stock riskFreeRate =
     (let returns = [js_div (to_num (change_1m stock)) (Fin 100),
                     js_div (to_num (change_6m stock)) (Fin 100),
                     js_div (to_num (change_1y stock)) (Fin 100)];
          sharpe = computeSharpeRatio returns riskFreeRate;
          annualReturn = js_div (to_num (change_1y stock)) (Fin 100);
          riskAdjustedReturn =
            (if beta stock \<noteq> None \<and> beta stock \<noteq> Some 0
             then Some (js_div annualReturn (to_num (beta stock))) else None)
      in \<lparr> fm_annualReturn = annualReturn,
           fm_riskAdjustedReturn = riskAdjustedReturn,
           fm_sharpeRatio = sharpe \<rparr>)"

text \<open>The row type and \<open>calculateRiskReturnMetrics\<close> of the risk/return view (fields
  prefixed \<open>rr_\<close>); the view calls the library with its default rate \<open>0.05\<close>.\<close>

record RiskReturnRow =
  rr_ticker :: string
  rr_sector :: string
  rr_beta :: "real option"
  rr_annualReturn :: jsnum
  rr_riskAdjustedReturn :: jsnum
  rr_sharpeRatio :: jsnum

definition riskReturnRow :: "StockData \<Rightarrow> RiskReturnRow" where
  "riskReturnRow stock =
     (let metrics = calculateStockMetrics stock (Fin 0.05)
      in \<lparr> rr_ticker = ticker stock,
           rr_sector = sector stock,
           rr_beta = beta stock,
           rr_annualReturn = js_mul (fm_annualReturn metrics) (Fin 100),
           rr_riskAdjustedReturn =
             (case fm_riskAdjustedReturn metrics of
                Some r \<Rightarrow> js_mul r (Fin 100) | None \<Rightarrow> Fin 0),
           rr_sharpeRatio =
             (case fm_sharpeRatio metrics of Some r \<Rightarrow> r | None \<Rightarrow> Fin 0) \<rparr>)"

definition hasReturns :: "StockData \<Rightarrow> bool" where
  "hasReturns stock =
     (change_1y stock \<noteq> None \<and> change_1m stock \<noteq> None \<and> change_6m stock \<noteq> None)"

definition calculateRiskReturnMetrics :: "StockData list \<Rightarrow> RiskReturnRow list" where
  "calculateRiskReturnMetrics stocks =
     js_sort (\<lambda>a b. js_sub (rr_sharpeRatio b) (rr_sharpeRatio a))
       (map riskReturnRow (filter hasReturns stocks))"

section \<open>Dividend metrics\<close>

text \<open>\<open>DividendMetrics\<close> (fields prefixed \<open>dm_\<close>) and \<open>calculateDividendMetrics\<close> of the
  dividend view. \<open>null > 0\<close> is \<open>0 > 0\<close>.\<close>

record DividendMetrics =
  dm_ticker :: string
  dm_sector :: string
  dm_dividend_yield :: "real option"
  dm_dividend_growth :: "real option"
  dm_payout_ratio :: "real option"

definition paysDividend :: "StockData \<Rightarrow> bool" where
  "paysDividend stock = js_gt (to_num (dividend_yield stock)) (Fin 0)"

definition dividendRow :: "StockData \<Rightarrow> DividendMetrics" where
  "dividendRow stock =
     \<lparr> dm_ticker = ticker stock,
       dm_sector = sector stock,
       dm_dividend_yield = dividend_yield stock,
       dm_dividend_growth = dividend_growth stock,
       dm_payout_ratio = payout_ratio stock \<rparr>"

definition calculateDividendMetrics :: "StockData list \<Rightarrow> DividendMetrics list" where
  "calculateDividendMetrics stocks =
     js_sort (\<lambda>a b. js_sub (to_num (dm_dividend_yield b)) (to_num (dm_dividend_yield a)))
       (map dividendRow (filter paysDividend stocks))"

text \<open>
  \<open>calculateSectorAverages\<close> of the dividend view. The \<open>Map\<close> is an association list in
  insertion order; an entry is created with zero totals on the first record of a sector
  and then updated in place.
\<close>

record SectorTotals =
  st_count :: nat
  totalYield :: jsnum
  totalPayout :: jsnum
  totalGrowth :: jsnum

record SectorAnalysis =
  sa_name :: string
  avgYield :: jsnum
  avgPayout :: jsnum
  avgGrowth :: jsnum
  stockCount :: nat

definition addToSector ::
  "(string \<times> SectorTotals) list \<Rightarrow> DividendMetrics \<Rightarrow> (string \<times> SectorTotals) list" where
  "addToSector sectorMap stock =
     (let sectorMap1 =
            (if map_of sectorMap (dm_sector stock) = None
             then sectorMap @ [(dm_sector stock,
                    \<lparr> st_count = 0, totalYield = Fin 0, totalPayout = Fin 0,
                      totalGrowth = Fin 0 \<rparr>)]
             else sectorMap)
      in map (\<lambda>(k, d).
            if k = dm_sector stock
            then (k, \<lparr> st_count = st_count d + 1,
                       totalYield = js_add (totalYield d) (to_num (dm_dividend_yield stock)),
                       totalPayout = js_add (totalPayout d) (to_num (dm_payout_ratio stock)),
                       totalGrowth = js_add (totalGrowth d) (to_num (dm_dividend_growth stock)) \<rparr>)
            else (k, d)) sectorMap1)"

definition sectorRow :: "string \<times> SectorTotals \<Rightarrow> SectorAnalysis" where
  "sectorRow e =
     (case e of (sector_name, d) \<Rightarrow>
        \<lparr> sa_name = sector_name,
          avgYield = js_div (totalYield d) (Fin (real (st_count d))),
          avgPayout = js_div (totalPayout d) (Fin (real (st_count d))),
          avgGrowth = js_div (totalGrowth d) (Fin (real (st_count d))),
          stockCount = st_count d \<rparr>)"

definition calculateSectorAverages :: "DividendMetrics list \<Rightarrow> SectorAnalysis list" where
  "calculateSectorAverages rows =
     js_sort (\<lambda>a b. js_sub (avgYield b) (avgYield a))
       (map sectorRow (foldl addToSector [] rows))"

section \<open>Correlation and clustering\<close>

text \<open>\<open>calculatePearsonCorrelation\<close>, in binary64. \<open>y[i]\<close> beyond the end of \<open>y\<close> is
  \<open>undefined\<close>, and a product with it is \<open>NaN\<close>.\<close>

definition js_nth :: "jsnum list \<Rightarrow> nat \<Rightarrow> jsnum" where
  "js_nth ys i = (if i < length ys then ys ! i else NaN)"

definition calculatePearsonCorrelation :: "jsnum list \<Rightarrow> jsnum list \<Rightarrow> jsnum" where
  "calculatePearsonCorrelation x y =
     (let n = Fin (real (length x));
          sum_x = foldl d_add (Fin 0) x;
          sum_y = foldl d_add (Fin 0) y;
          sum_xy = foldl (\<lambda>acc (curr, i). d_add acc (d_mul curr (js_nth y i))) (Fin 0)
                     (zip x [0 ..< length x]);
          sum_x2 = foldl (\<lambda>a b. d_add a (d_mul b b)) (Fin 0) x;
          sum_y2 = foldl (\<lambda>a b. d_add a (d_mul b b)) (Fin 0) y;
          numerator = d_sub (d_mul n sum_xy) (d_mul sum_x sum_y);
          denominator =
            d_sqrt (d_mul (d_sub (d_mul n sum_x2) (d_mul sum_x sum_x))
                          (d_sub (d_mul n sum_y2) (d_mul sum_y sum_y)))
      in if js_eq denominator (Fin 0) then Fin 0 else d_div numerator denominator)"

text \<open>\<open>ClusterData\<close>; \<open>name\<close>, \<open>sector\<close> and \<open>stocks\<close> carry the prefix \<open>cl_\<close>.\<close>

record ClusterData =
  cl_name :: string
  cl_sector :: string
  cl_stocks :: "string list"
  avg_correlation :: jsnum
  risk_score :: jsnum

datatype error = TypeError

text \<open>
  \<open>stocksBySector\<close> is a plain object used as a dictionary, here the list of its own
  properties in creation order. A sector named like a property of \<open>Object.prototype\<close>
  finds that inherited value under \<open>acc[stock.sector]\<close>: no array is created, and
  \<open>push\<close> on the inherited value throws a \<open>TypeError\<close>.
\<close>

definition object_prototype_keys :: "string list" where
  "object_prototype_keys =
     [''constructor'', ''__defineGetter__'', ''__defineSetter__'', ''hasOwnProperty'',
      ''__lookupGetter__'', ''__lookupSetter__'', ''isPrototypeOf'',
      ''propertyIsEnumerable'', ''toString'', ''valueOf'', ''__proto__'',
      ''toLocaleString'']"

definition groupStep ::
  "error + (string \<times> StockData list) list \<Rightarrow> StockData \<Rightarrow>
   error + (string \<times> StockData list) list" where
  "groupStep r stock =
     (case r of
        Inl e \<Rightarrow> Inl e
      | Inr acc \<Rightarrow>
          if sector stock \<in> set object_prototype_keys then Inl TypeError
          else (case map_of acc (sector stock) of
                  None \<Rightarrow> Inr (acc @ [(sector stock, [stock])])
                | Some _ \<Rightarrow>
                    Inr (map (\<lambda>(k, v). if k = sector stock then (k, v @ [stock]) else (k, v))
                           acc)))"

definition stocksBySector :: "StockData list \<Rightarrow> error + (string \<times> StockData list) list" where
  "stocksBySector stocks = foldl groupStep (Inr []) stocks"

text \<open>
  \<open>Object.entries\<close> lists the keys that are array indices (canonical decimal numerals
  below \<open>2^32 - 1\<close>) first, in ascending numeric order, and then the other keys in
  creation order.
\<close>

definition is_digit :: "char \<Rightarrow> bool" where
  "is_digit c = (48 \<le> (of_char c :: nat) \<and> (of_char c :: nat) \<le> 57)"

definition nat_of_digits :: "string \<Rightarrow> nat" where
  "nat_of_digits s = foldl (\<lambda>n c. 10 * n + ((of_char c :: nat) - 48)) 0 s"

definition is_array_index :: "string \<Rightarrow> bool" where
  "is_array_index s =
     (s \<noteq> [] \<and> list_all is_digit s \<and> (s = ''0'' \<or> hd s \<noteq> CHR ''0'')
      \<and> nat_of_digits s < 2 ^ 32 - 1)"

definition Object_entries :: "(string \<times> 'a) list \<Rightarrow> (string \<times> 'a) list" where
  "Object_entries props =
     sort_key (\<lambda>e. nat_of_digits (fst e)) (filter (\<lambda>e. is_array_index (fst e)) props)
     @ filter (\<lambda>e. \<not> is_array_index (fst e)) props"

text \<open>
  The table \<open>correlations\<close>: for every stock of the sector a fresh row object, filled
  with one entry per stock of the sector; a later stock with the same ticker replaces
  the row, or the entry.
\<close>

definition returns5 :: "StockData \<Rightarrow> jsnum list" where
  "returns5 stock =
     [to_double (change_1w stock), to_double (change_1m stock), to_double (change_6m stock),
      to_double (change_ytd stock), to_double (change_1y stock)]"

definition correlationRow :: "StockData list \<Rightarrow> StockData \<Rightarrow> (string \<rightharpoonup> jsnum)" where
  "correlationRow sectorStocks stock1 =
     foldl (\<lambda>row stock2.
              row(ticker stock2 \<mapsto>
                (if ticker stock1 = ticker stock2 then Fin 1
                 else calculatePearsonCorrelation (returns5 stock1) (returns5 stock2))))
       Map.empty sectorStocks"

definition correlationTable :: "StockData list \<Rightarrow> (string \<rightharpoonup> (string \<rightharpoonup> jsnum))" where
  "correlationTable sectorStocks =
     foldl (\<lambda>correlations stock1.
              correlations(ticker stock1 \<mapsto> correlationRow sectorStocks stock1))
       Map.empty sectorStocks"

text \<open>
  Reading \<open>correlations[t1][t2]\<close>. The rows are plain objects too: an assignment of a
  number to the key \<open>__proto__\<close> is ignored, and reading that key gives the prototype
  object; every other key reads what was stored. A missing row would make the second
  subscript throw, a missing entry reads \<open>undefined\<close>.
\<close>

datatype jsval = Number jsnum | Object | Undefined

definition readCorrelation ::
  "(string \<rightharpoonup> (string \<rightharpoonup> jsnum)) \<Rightarrow> string \<Rightarrow> string \<Rightarrow> error + jsval" where
  "readCorrelation correlations t1 t2 =
     (case correlations t1 of
        None \<Rightarrow> Inl TypeError
      | Some row \<Rightarrow>
          if t2 = ''__proto__'' then Inr Object
          else (case row t2 of None \<Rightarrow> Inr Undefined | Some v \<Rightarrow> Inr (Number v)))"

text \<open>
  \<open>totalCorr += v\<close>: a number while only numbers are added (\<open>undefined\<close> adds as
  \<open>NaN\<close>); adding an object concatenates strings, and \<open>totalCorr\<close> stays a string, one
  that is no numeral, from then on.
\<close>

datatype total = NumTotal jsnum | StringTotal

fun addTotal :: "total \<Rightarrow> jsval \<Rightarrow> total" where
  "addTotal (NumTotal a) (Number v) = NumTotal (js_add a v)"
| "addTotal (NumTotal a) Undefined = NumTotal NaN"
| "addTotal (NumTotal a) Object = StringTotal"
| "addTotal StringTotal v = StringTotal"

fun total_to_num :: "total \<Rightarrow> jsnum" where
  "total_to_num (NumTotal a) = a"
| "total_to_num StringTotal = NaN"

text \<open>The pairs \<open>(stock1, stock2)\<close> with \<open>idx1 < idx2\<close>, in the order the two nested
  \<open>forEach\<close> visit them.\<close>

definition clusterPairs :: "StockData list \<Rightarrow> (StockData \<times> StockData) list" where
  "clusterPairs clusterStocks =
     concat (map (\<lambda>(idx1, stock1).
               map (\<lambda>(idx2, stock2). (stock1, stock2))
                 (filter (\<lambda>(idx2, stock2). idx1 < idx2) (enumerate 0 clusterStocks)))
             (enumerate 0 clusterStocks))"

definition pairStep ::
  "(string \<rightharpoonup> (string \<rightharpoonup> jsnum)) \<Rightarrow> error + total \<times> nat \<Rightarrow> StockData \<times> StockData \<Rightarrow>
   error + total \<times> nat" where
  "pairStep correlations r p =
     (case r of
        Inl e \<Rightarrow> Inl e
      | Inr (totalCorr, corrCount) \<Rightarrow>
          (case readCorrelation correlations (ticker (fst p)) (ticker (snd p)) of
             Inl e \<Rightarrow> Inl e
           | Inr v \<Rightarrow> Inr (addTotal totalCorr v, corrCount + 1)))"

text \<open>Decimal numerals, for \<open>Math.floor(i / clusterSize) + 1\<close> in the cluster name.\<close>

function show_nat :: "nat \<Rightarrow> string" where
  "show_nat n =
     (if n < 10 then [char_of (48 + n)]
      else show_nat (n div 10) @ [char_of (48 + n mod 10)])"
  by pat_completeness auto
termination
  by (relation "measure (\<lambda>n. n)") auto

definition clusterSize :: nat where
  "clusterSize = 5"

text \<open>One cluster: the body of the \<open>for\<close> loop after the \<open>continue\<close>.\<close>

definition makeCluster ::
  "(string \<rightharpoonup> (string \<rightharpoonup> jsnum)) \<Rightarrow> string \<Rightarrow> nat \<Rightarrow> StockData list \<Rightarrow>
   error + ClusterData" where
  "makeCluster correlations sector_name i clusterStocks =
     (case foldl (pairStep correlations) (Inr (NumTotal (Fin 0), 0))
             (clusterPairs clusterStocks) of
        Inl e \<Rightarrow> Inl e
      | Inr (totalCorr, corrCount) \<Rightarrow>
          let avgCorrelation =
                (if corrCount > 0
                 then js_div (total_to_num totalCorr) (Fin (real corrCount)) else Fin 0);
              riskScore = js_min2 (Fin 100) (js_mul avgCorrelation (Fin 100))
          in Inr \<lparr> cl_name = sector_name @ '' Cluster '' @ show_nat (i div clusterSize + 1),
                   cl_sector = sector_name,
                   cl_stocks = map ticker clusterStocks,
                   avg_correlation = avgCorrelation,
                   risk_score = riskScore \<rparr>)"

text \<open>The loop \<open>for (let i = 0; i < sectorStocks.length; i += clusterSize)\<close>, from \<open>i\<close>
  on, appending to \<open>clusters\<close>.\<close>

function clusterLoop ::
  "(string \<rightharpoonup> (string \<rightharpoonup> jsnum)) \<Rightarrow> string \<Rightarrow> StockData list \<Rightarrow> nat \<Rightarrow>
   ClusterData list \<Rightarrow> error + ClusterData list" where
  "clusterLoop correlations sector_name sectorStocks i clusters =
     (if i < length sectorStocks then
        (let clusterStocks = take clusterSize (drop i sectorStocks)
         in if length clusterStocks < 2
            then clusterLoop correlations sector_name sectorStocks (i + clusterSize) clusters
            else (case makeCluster correlations sector_name i clusterStocks of
                    Inl e \<Rightarrow> Inl e
                  | Inr c \<Rightarrow>
                      clusterLoop correlations sector_name sectorStocks (i + clusterSize)
                        (clusters @ [c])))
      else Inr clusters)"
  by pat_completeness auto
termination
  by (relation "measure (\<lambda>(correlations, sector_name, sectorStocks, i, clusters).
        length sectorStocks - i)") (auto simp: clusterSize_def)

definition sectorStep ::
  "error + ClusterData list \<Rightarrow> string \<times> StockData list \<Rightarrow> error + ClusterData list" where
  "sectorStep r e =
     (case r of
        Inl err \<Rightarrow> Inl err
      | Inr clusters \<Rightarrow>
          clusterLoop (correlationTable (snd e)) (fst e) (snd e) 0 clusters)"

definition calculateCorrelationClusters :: "StockData list \<Rightarrow> error + ClusterData list" where
  "calculateCorrelationClusters stocks =
     (case stocksBySector stocks of
        Inl e \<Rightarrow> Inl e
      | Inr groups \<Rightarrow>
          (case foldl sectorStep (Inr []) (Object_entries groups) of
             Inl e \<Rightarrow> Inl e
           | Inr clusters \<Rightarrow>
               Inr (js_sort (\<lambda>a b. js_sub (avg_correlation b) (avg_correlation a))
                      clusters)))"

section \<open>Reference notions\<close>

text \<open>
  The statistics the specification names, over the reals: the excess returns over the
  monthly risk-free rate, their mean, and their sample standard deviation (denominator
  \<open>n - 1\<close>).
\<close>

definition excess :: "real list \<Rightarrow> real \<Rightarrow> real list" where
  "excess rs rf = map (\<lambda>r. r - rf / 12) rs"

definition mean :: "real list \<Rightarrow> real" where
  "mean xs = sum_list xs / real (length xs)"

definition sampleStdDev :: "real list \<Rightarrow> real" where
  "sampleStdDev xs = sqrt (sum_list (map (\<lambda>x. (x - mean xs)\<^sup>2) xs) / (real (length xs) - 1))"

text \<open>The update of one entry of the sector map, and the number of records a sector map
  has counted.\<close>

definition bumpTotals :: "DividendMetrics \<Rightarrow> string \<times> SectorTotals \<Rightarrow> string \<times> SectorTotals" where
  "bumpTotals stock = (\<lambda>(k, d).
            if k = dm_sector stock
            then (k, \<lparr> st_count = st_count d + 1,
                       totalYield = js_add (totalYield d) (to_num (dm_dividend_yield stock)),
                       totalPayout = js_add (totalPayout d) (to_num (dm_payout_ratio stock)),
                       totalGrowth = js_add (totalGrowth d) (to_num (dm_dividend_growth stock)) \<rparr>)
            else (k, d))"

definition counted :: "(string \<times> SectorTotals) list \<Rightarrow> nat" where
  "counted acc = sum_list (map (\<lambda>e. st_count (snd e)) acc)"

text \<open>
  The groups the specification describes: a list cut, in its order, into consecutive
  groups of \<open>clusterSize\<close>, the last one possibly shorter; and of these, the groups the
  clustering keeps, those of at least two members.
\<close>

function consecutiveGroups :: "'a list \<Rightarrow> 'a list list" where
  "consecutiveGroups xs =
     (if xs = [] then [] else take clusterSize xs # consecutiveGroups (drop clusterSize xs))"
  by pat_completeness auto
termination
  by (relation "measure length") (auto simp: clusterSize_def)

definition keptGroups :: "'a list \<Rightarrow> 'a list list" where
  "keptGroups xs = filter (\<lambda>g. 2 \<le> length g) (consecutiveGroups xs)"

text \<open>What \<open>stocksBySector\<close> holds after a batch: one entry per sector of the batch,
  with the records of that sector in batch order.\<close>

definition grouped :: "StockData list \<Rightarrow> (string \<times> StockData list) list \<Rightarrow> bool" where
  "grouped stocks groups =
     (distinct (map fst groups)
      \<and> fst ` set groups = sector ` set stocks
      \<and> (\<forall>e \<in> set groups. snd e = filter (\<lambda>st. sector st = fst e) stocks))"

section \<open>Example records\<close>

text \<open>A record with a ticker and a sector and no numeric data; the examples below set
  the fields they need.\<close>

definition emptyStock :: "string \<Rightarrow> string \<Rightarrow> StockData" where
  "emptyStock t sec =
     \<lparr> ticker = t, company_name = t, sector = sec, price = None, market_cap = None,
       change_1w = None, change_1m = None, change_6m = None, change_ytd = None,
       change_1y = None, change_3y = None, dividend_yield = None, dividend_growth = None,
       payout_ratio = None, peg_ratio = None, pb_ratio = None, pe_forward = None,
       eps_growth_3y = None, revenue_growth_3y = None, roe = None, roa = None,
       beta = None \<rparr>"

text \<open>Three records of one sector: a dividend payer, one with yield \<open>0\<close>, one with no
  yield.\<close>

definition payer :: StockData where
  "payer = (emptyStock ''PAY'' ''Energy'') \<lparr> dividend_yield := Some 2.5,
     dividend_growth := Some 4, payout_ratio := Some 40 \<rparr>"

definition zeroYield :: StockData where
  "zeroYield = (emptyStock ''ZER'' ''Energy'') \<lparr> dividend_yield := Some 0 \<rparr>"

definition noYield :: StockData where
  "noYield = emptyStock ''NUL'' ''Energy''"

text \<open>A record whose three returns are equal, and one whose mean excess return over the
  default monthly rate \<open>0.05 / 12\<close> is zero.\<close>

definition flatReturns :: StockData where
  "flatReturns = (emptyStock ''FLT'' ''Tech'') \<lparr> change_1m := Some 5, change_6m := Some 5,
     change_1y := Some 5 \<rparr>"

definition zeroSharpe :: StockData where
  "zeroSharpe = (emptyStock ''ZSH'' ''Tech'') \<lparr> change_1m := Some 0, change_6m := Some 0,
     change_1y := Some 1.25, beta := Some 1.25 \<rparr>"

text \<open>Two records with all nine scored fields; \<open>highScore\<close> is the better one on every
  normalized field.\<close>

definition highScore :: StockData where
  "highScore = (emptyStock ''HIGH'' ''Tech'') \<lparr> pe_forward := Some 10, pb_ratio := Some 1,
     peg_ratio := Some 1, eps_growth_3y := Some 20, revenue_growth_3y := Some 10,
     roe := Some 20, roa := Some 10, change_1y := Some 30, beta := Some 1 \<rparr>"

definition lowScore :: StockData where
  "lowScore = (emptyStock ''LOW'' ''Tech'') \<lparr> pe_forward := Some 20, pb_ratio := Some 3,
     peg_ratio := Some 2, eps_growth_3y := Some 10, revenue_growth_3y := Some 5,
     roe := Some 10, roa := Some 5, change_1y := Some 10, beta := Some 1.5 \<rparr>"

text \<open>Seven records of one sector and four of another, without data (all returns
  \<open>null\<close>), and two records whose five returns run in opposite directions.\<close>

definition sevenTech :: "StockData list" where
  "sevenTech = map (\<lambda>t. emptyStock t ''Tech'')
     [''T1'', ''T2'', ''T3'', ''T4'', ''T5'', ''T6'', ''T7'']"

definition fourEnergy :: "StockData list" where
  "fourEnergy = map (\<lambda>t. emptyStock t ''Energy'') [''E1'', ''E2'', ''E3'', ''E4'']"

definition rising :: StockData where
  "rising = (emptyStock ''UP'' ''Tech'') \<lparr> change_1w := Some 1, change_1m := Some 2,
     change_6m := Some 3, change_ytd := Some 4, change_1y := Some 5 \<rparr>"

definition falling :: StockData where
  "falling = (emptyStock ''DOWN'' ''Tech'') \<lparr> change_1w := Some 5, change_1m := Some 4,
     change_6m := Some 3, change_ytd := Some 2, change_1y := Some 1 \<rparr>"

declare consecutiveGroups.simps [simp del]
declare clusterLoop.simps [simp del]
declare show_nat.simps [simp del]

section \<open>Properties of the arithmetic\<close>

lemma js_add_NaN [simp]: "js_add x NaN = NaN" by (cases x) simp_all
lemma js_mul_NaN [simp]: "js_mul x NaN = NaN" by (cases x) simp_all
lemma js_div_NaN [simp]: "js_div x NaN = NaN" by (cases x) simp_all
lemma js_sub_NaN [simp]: "js_sub x NaN = NaN" "js_sub NaN x = NaN"
  by (simp_all add: js_sub_def)
lemma js_sub_Fin [simp]: "js_sub (Fin a) (Fin b) = Fin (a - b)"
  by (simp add: js_sub_def)

section \<open>Properties of normalization\<close>

lemma normalizeMetric_Fin:
  "mn < mx \<Longrightarrow>
   normalizeMetric (Fin v) (Fin mn) (Fin mx) = Fin ((v - mn) / (mx - mn) * 100)"
  by (simp add: normalizeMetric_def js_sub_def)

lemma normalizeMetric_degenerate:
  "normalizeMetric (Fin m) (Fin m) (Fin m) = NaN"
  by (simp add: normalizeMetric_def js_sub_def)

text \<open>
  C2. For finite \<open>v\<close>, \<open>min\<close>, \<open>max\<close> with \<open>min < max\<close>, \<open>normalizeMetric\<close> returns
  \<open>((v - min) / (max - min)) * 100\<close>; it is \<open>0\<close> at \<open>min\<close>, \<open>100\<close> at \<open>max\<close>, and
  monotonic non-decreasing in \<open>v\<close>.
\<close>

theorem normalizeMetric_formula:
  assumes "mn < mx"
  shows "normalizeMetric (Fin v) (Fin mn) (Fin mx) = Fin (((v - mn) / (mx - mn)) * 100)
    \<and> normalizeMetric (Fin mn) (Fin mn) (Fin mx) = Fin 0
    \<and> normalizeMetric (Fin mx) (Fin mn) (Fin mx) = Fin 100
    \<and> (\<forall>a b. a \<le> b \<longrightarrow>
          js_le (normalizeMetric (Fin a) (Fin mn) (Fin mx))
                (normalizeMetric (Fin b) (Fin mn) (Fin mx)))"
proof -
  have pos: "0 < mx - mn" using assms by simp
  have mono: "js_le (normalizeMetric (Fin a) (Fin mn) (Fin mx))
                    (normalizeMetric (Fin b) (Fin mn) (Fin mx))" if "a \<le> b" for a b
  proof -
    have "(a - mn) / (mx - mn) \<le> (b - mn) / (mx - mn)"
      using that pos by (simp add: divide_right_mono)
    then have "(a - mn) / (mx - mn) * 100 \<le> (b - mn) / (mx - mn) * 100"
      by (rule mult_right_mono) simp
    then have "js_le (Fin ((a - mn) / (mx - mn) * 100)) (Fin ((b - mn) / (mx - mn) * 100))"
      unfolding js_le_def js_eq_def by (simp only: js_lt.simps jsnum.inject) auto
    then show ?thesis
      by (simp only: normalizeMetric_Fin [OF assms])
  qed
  show ?thesis
    using assms mono by (simp add: normalizeMetric_Fin)
qed

theorem normalizeMetric_formula_witness:
  "normalizeMetric (Fin 15) (Fin 10) (Fin 20) = Fin 50
    \<and> normalizeMetric (Fin 10) (Fin 10) (Fin 20) = Fin 0
    \<and> normalizeMetric (Fin 20) (Fin 10) (Fin 20) = Fin 100
    \<and> js_le (normalizeMetric (Fin 12) (Fin 10) (Fin 20))
             (normalizeMetric (Fin 15) (Fin 10) (Fin 20))"
proof -
  have h: "(10::real) < 20" by simp
  have le: "(12::real) \<le> 15" by simp
  have "js_le (normalizeMetric (Fin 12) (Fin 10) (Fin 20))
              (normalizeMetric (Fin 15) (Fin 10) (Fin 20))"
    using normalizeMetric_formula [OF h, of 15] le by blast
  then show ?thesis
    using normalizeMetric_formula [OF h, of 15] by simp
qed

section \<open>Properties of sorting\<close>

lemma mset_js_insert: "mset (js_insert cmp x xs) = add_mset x (mset xs)"
  by (induction xs) auto

lemma mset_js_sort: "mset (js_sort cmp xs) = mset xs"
  unfolding js_sort_def by (induction xs) (auto simp: mset_js_insert)

lemma set_js_sort: "set (js_sort cmp xs) = set xs"
  using mset_js_sort [of cmp xs] by (metis set_mset_mset)

lemma length_js_sort: "length (js_sort cmp xs) = length xs"
  using mset_js_sort [of cmp xs] by (metis size_mset)

lemma set_js_insert: "set (js_insert cmp x xs) = insert x (set xs)"
  using mset_js_insert [of cmp x xs] by (metis set_mset_mset set_mset_add_mset_insert)

lemma js_insert_descending:
  assumes "key x = Fin (k x)" "\<forall>a \<in> set ys. key a = Fin (k a)"
    "sorted_wrt (\<lambda>a b. k b \<le> k a) ys"
  shows "sorted_wrt (\<lambda>a b. k b \<le> k a) (js_insert (\<lambda>a b. js_sub (key b) (key a)) x ys)"
  using assms
proof (induction ys)
  case Nil
  then show ?case by simp
next
  case (Cons y ys)
  have gt: "js_gt (js_sub (key y) (key x)) (Fin 0) = (k x < k y)"
    using Cons.prems by (simp add: js_gt_def)
  show ?case
  proof (cases "k x < k y")
    case True
    then show ?thesis
      using Cons gt by (auto simp: set_js_insert)
  next
    case False
    then show ?thesis
      using Cons.prems gt by auto
  qed
qed

lemma js_sort_descending:
  assumes "\<forall>a \<in> set xs. key a = Fin (k a)"
  shows "sorted_wrt (\<lambda>a b. k b \<le> k a) (js_sort (\<lambda>a b. js_sub (key b) (key a)) xs)"
  using assms
proof (induction xs)
  case Nil
  then show ?case by (simp add: js_sort_def)
next
  case (Cons x xs)
  have s: "js_sort (\<lambda>a b. js_sub (key b) (key a)) (x # xs)
      = js_insert (\<lambda>a b. js_sub (key b) (key a)) x (js_sort (\<lambda>a b. js_sub (key b) (key a)) xs)"
    by (simp add: js_sort_def)
  show ?case
    unfolding s using Cons by (intro js_insert_descending) (simp_all add: set_js_sort)
qed

lemma sorted_wrt_trivial: "(\<And>a b. a \<in> set xs \<Longrightarrow> b \<in> set xs \<Longrightarrow> P a b) \<Longrightarrow> sorted_wrt P xs"
  by (induction xs) auto

section \<open>Properties of the composite score\<close>

lemma cs_ticker_scoreStock: "cs_ticker (scoreStock m s) = ticker s"
  by (simp add: scoreStock_def Let_def)

lemma cs_sector_scoreStock: "cs_sector (scoreStock m s) = sector s"
  by (simp add: scoreStock_def Let_def)

text \<open>
  C8. \<open>calculateCompositeScores\<close> returns exactly one row for each input record whose
  nine scored fields are all present, and no row for any other record: the rows carry
  the tickers and sectors of those records, with multiplicity, and the result is the
  same as on the batch with the incomplete records removed, so an incomplete record
  enters neither the rows nor the minima and maxima.
\<close>

theorem composite_rows_are_the_complete_records:
  fixes stocks :: "StockData list"
  defines "allPresent \<equiv> \<lambda>s. pe_forward s \<noteq> None \<and> pb_ratio s \<noteq> None \<and> peg_ratio s \<noteq> None
      \<and> eps_growth_3y s \<noteq> None \<and> revenue_growth_3y s \<noteq> None \<and> roe s \<noteq> None
      \<and> roa s \<noteq> None \<and> change_1y s \<noteq> None \<and> beta s \<noteq> None"
  shows "mset (map (\<lambda>r. (cs_ticker r, cs_sector r)) (calculateCompositeScores stocks))
           = mset (map (\<lambda>s. (ticker s, sector s)) (filter allPresent stocks))
    \<and> length (calculateCompositeScores stocks) = length (filter allPresent stocks)
    \<and> calculateCompositeScores stocks = calculateCompositeScores (filter allPresent stocks)"
proof -
  have c: "allPresent = validStock"
    by (rule ext) (simp add: allPresent_def validStock_def)
  have "mset (map (\<lambda>r. (cs_ticker r, cs_sector r)) (calculateCompositeScores stocks))
      = mset (map (\<lambda>r. (cs_ticker r, cs_sector r))
          (map (scoreStock (cohortMetrics (filter validStock stocks))) (filter validStock stocks)))"
    unfolding calculateCompositeScores_def Let_def
    by (metis mset_js_sort mset_map)
  then have 1: "mset (map (\<lambda>r. (cs_ticker r, cs_sector r)) (calculateCompositeScores stocks))
           = mset (map (\<lambda>s. (ticker s, sector s)) (filter validStock stocks))"
    by (simp add: o_def cs_ticker_scoreStock cs_sector_scoreStock)
  have 2: "length (calculateCompositeScores stocks) = length (filter validStock stocks)"
    by (simp add: calculateCompositeScores_def Let_def length_js_sort)
  have 3: "calculateCompositeScores stocks = calculateCompositeScores (filter validStock stocks)"
    by (simp add: calculateCompositeScores_def Let_def)
  show ?thesis using 1 2 3 by (simp add: c)
qed

lemma foldl_js_min2_Fin: "foldl js_min2 (Fin a) (map Fin vs) = Fin (foldl min a vs)"
  by (induction vs arbitrary: a) (auto simp: js_min2_def min_def)

lemma foldl_js_max2_Fin: "foldl js_max2 (Fin a) (map Fin vs) = Fin (foldl max a vs)"
  by (induction vs arbitrary: a) (auto simp: js_max2_def max_def)

lemma foldl_min_le: "foldl min a vs \<le> (a::real) \<and> (\<forall>v \<in> set vs. foldl min a vs \<le> v)"
proof (induction vs arbitrary: a)
  case Nil
  show ?case by simp
next
  case (Cons x vs)
  show ?case using Cons [of "min a x"] by auto
qed

lemma foldl_max_ge: "(a::real) \<le> foldl max a vs \<and> (\<forall>v \<in> set vs. v \<le> foldl max a vs)"
proof (induction vs arbitrary: a)
  case Nil
  show ?case by simp
next
  case (Cons x vs)
  show ?case using Cons [of "max a x"] by auto
qed

lemma Math_min_Fin:
  "vs \<noteq> [] \<Longrightarrow> \<exists>lo. Math_min (map Fin vs) = Fin lo \<and> (\<forall>v \<in> set vs. lo \<le> v)"
proof (cases vs)
  case Nil
  then show "vs \<noteq> [] \<Longrightarrow> ?thesis" by simp
next
  case (Cons a ws)
  have "Math_min (map Fin vs) = Fin (foldl min a ws)"
    by (simp add: Cons Math_min_def js_min2_def foldl_js_min2_Fin)
  then show ?thesis using foldl_min_le [of a ws] Cons by auto
qed

lemma Math_max_Fin:
  "vs \<noteq> [] \<Longrightarrow> \<exists>hi. Math_max (map Fin vs) = Fin hi \<and> (\<forall>v \<in> set vs. v \<le> hi)"
proof (cases vs)
  case Nil
  then show "vs \<noteq> [] \<Longrightarrow> ?thesis" by simp
next
  case (Cons a ws)
  have "Math_max (map Fin vs) = Fin (foldl max a ws)"
    by (simp add: Cons Math_max_def js_max2_def foldl_js_max2_Fin)
  then show ?thesis using foldl_max_ge [of a ws] Cons by auto
qed

text \<open>Within a cohort whose records all have the field, the normalized values of the
  field are all finite, or all \<open>NaN\<close>.\<close>

lemma normalizeBy_cohort:
  assumes "\<forall>s \<in> set V. f s \<noteq> None"
  shows "(\<forall>s \<in> set V. normalizeBy (f s) (minMaxOf f V) = NaN)
       \<or> (\<forall>s \<in> set V. \<exists>r. normalizeBy (f s) (minMaxOf f V) = Fin r)"
proof (cases "V = []")
  case True
  then show ?thesis by simp
next
  case False
  define vs where "vs = map (\<lambda>s. the (f s)) V"
  have vs: "map (\<lambda>s. to_num (f s)) V = map Fin vs"
    using assms by (auto simp: vs_def)
  have ne: "vs \<noteq> []" using False by (simp add: vs_def)
  obtain lo where lo: "Math_min (map Fin vs) = Fin lo" "\<forall>v \<in> set vs. lo \<le> v"
    using Math_min_Fin [OF ne] by blast
  obtain hi where hi: "Math_max (map Fin vs) = Fin hi" "\<forall>v \<in> set vs. v \<le> hi"
    using Math_max_Fin [OF ne] by blast
  have val: "to_num (f s) = Fin (the (f s)) \<and> lo \<le> the (f s) \<and> the (f s) \<le> hi"
    if "s \<in> set V" for s
    using that assms lo(2) hi(2) by (auto simp: vs_def)
  have mm: "minMaxOf f V = \<lparr> mm_min = Fin lo, mm_max = Fin hi \<rparr>"
    by (simp add: minMaxOf_def vs lo(1) hi(1))
  show ?thesis
  proof (cases "lo < hi")
    case True
    have "\<exists>r. normalizeBy (f s) (minMaxOf f V) = Fin r" if "s \<in> set V" for s
      using val [OF that] True by (simp add: normalizeBy_def mm normalizeMetric_Fin)
    then show ?thesis by blast
  next
    case False
    have "normalizeBy (f s) (minMaxOf f V) = NaN" if "s \<in> set V" for s
    proof -
      have e: "the (f s) = lo" "hi = lo" using val [OF that] False by auto
      have "to_num (f s) = Fin lo" using val [OF that] e(1) by simp
      then show ?thesis
        by (simp add: normalizeBy_def mm e(2) normalizeMetric_degenerate)
    qed
    then show ?thesis by blast
  qed
qed


lemma totalScore_scoreStock:
  "totalScore (scoreStock (cohortMetrics V) s) =
     js_add (js_add (js_add (js_add
       (js_mul (js_div (js_add (js_add
           (js_sub (Fin 100) (normalizeBy (pe_forward s) (minMaxOf pe_forward V)))
           (js_sub (Fin 100) (normalizeBy (pb_ratio s) (minMaxOf pb_ratio V))))
           (js_sub (Fin 100) (normalizeBy (peg_ratio s) (minMaxOf peg_ratio V)))) (Fin 3))
         (Fin 0.25))
       (js_mul (js_div (js_add
           (normalizeBy (eps_growth_3y s) (minMaxOf eps_growth_3y V))
           (normalizeBy (revenue_growth_3y s) (minMaxOf revenue_growth_3y V))) (Fin 2))
         (Fin 0.25)))
       (js_mul (js_div (js_add
           (normalizeBy (roe s) (minMaxOf roe V))
           (normalizeBy (roa s) (minMaxOf roa V))) (Fin 2))
         (Fin 0.20)))
       (js_mul (normalizeBy (change_1y s) (minMaxOf change_1y V)) (Fin 0.15)))
       (js_mul (js_sub (Fin 100) (js_mul (js_abs (js_sub (to_num (beta s)) (Fin 1))) (Fin 50)))
         (Fin 0.15))"
  by (simp add: scoreStock_def cohortMetrics_def Let_def)

lemma totalScore_cohort:
  fixes stocks :: "StockData list"
  defines "V \<equiv> filter validStock stocks"
  shows "(\<forall>s \<in> set V. totalScore (scoreStock (cohortMetrics V) s) = NaN)
       \<or> (\<forall>s \<in> set V. \<exists>t. totalScore (scoreStock (cohortMetrics V) s) = Fin t)"
proof -
  let ?n1 = "\<lambda>s. normalizeBy (pe_forward s) (minMaxOf pe_forward V)"
  let ?n2 = "\<lambda>s. normalizeBy (pb_ratio s) (minMaxOf pb_ratio V)"
  let ?n3 = "\<lambda>s. normalizeBy (peg_ratio s) (minMaxOf peg_ratio V)"
  let ?n4 = "\<lambda>s. normalizeBy (eps_growth_3y s) (minMaxOf eps_growth_3y V)"
  let ?n5 = "\<lambda>s. normalizeBy (revenue_growth_3y s) (minMaxOf revenue_growth_3y V)"
  let ?n6 = "\<lambda>s. normalizeBy (roe s) (minMaxOf roe V)"
  let ?n7 = "\<lambda>s. normalizeBy (roa s) (minMaxOf roa V)"
  let ?n8 = "\<lambda>s. normalizeBy (change_1y s) (minMaxOf change_1y V)"
  have c1: "(\<forall>s \<in> set V. ?n1 s = NaN) \<or> (\<forall>s \<in> set V. \<exists>r. ?n1 s = Fin r)"
    by (rule normalizeBy_cohort) (simp add: V_def validStock_def)
  have c2: "(\<forall>s \<in> set V. ?n2 s = NaN) \<or> (\<forall>s \<in> set V. \<exists>r. ?n2 s = Fin r)"
    by (rule normalizeBy_cohort) (simp add: V_def validStock_def)
  have c3: "(\<forall>s \<in> set V. ?n3 s = NaN) \<or> (\<forall>s \<in> set V. \<exists>r. ?n3 s = Fin r)"
    by (rule normalizeBy_cohort) (simp add: V_def validStock_def)
  have c4: "(\<forall>s \<in> set V. ?n4 s = NaN) \<or> (\<forall>s \<in> set V. \<exists>r. ?n4 s = Fin r)"
    by (rule normalizeBy_cohort) (simp add: V_def validStock_def)
  have c5: "(\<forall>s \<in> set V. ?n5 s = NaN) \<or> (\<forall>s \<in> set V. \<exists>r. ?n5 s = Fin r)"
    by (rule normalizeBy_cohort) (simp add: V_def validStock_def)
  have c6: "(\<forall>s \<in> set V. ?n6 s = NaN) \<or> (\<forall>s \<in> set V. \<exists>r. ?n6 s = Fin r)"
    by (rule normalizeBy_cohort) (simp add: V_def validStock_def)
  have c7: "(\<forall>s \<in> set V. ?n7 s = NaN) \<or> (\<forall>s \<in> set V. \<exists>r. ?n7 s = Fin r)"
    by (rule normalizeBy_cohort) (simp add: V_def validStock_def)
  have c8: "(\<forall>s \<in> set V. ?n8 s = NaN) \<or> (\<forall>s \<in> set V. \<exists>r. ?n8 s = Fin r)"
    by (rule normalizeBy_cohort) (simp add: V_def validStock_def)
  consider
    (nan) "(\<forall>s \<in> set V. ?n1 s = NaN) \<or> (\<forall>s \<in> set V. ?n2 s = NaN)
         \<or> (\<forall>s \<in> set V. ?n3 s = NaN) \<or> (\<forall>s \<in> set V. ?n4 s = NaN)
         \<or> (\<forall>s \<in> set V. ?n5 s = NaN) \<or> (\<forall>s \<in> set V. ?n6 s = NaN)
         \<or> (\<forall>s \<in> set V. ?n7 s = NaN) \<or> (\<forall>s \<in> set V. ?n8 s = NaN)"
  | (fin) "(\<forall>s \<in> set V. \<exists>r. ?n1 s = Fin r)" "(\<forall>s \<in> set V. \<exists>r. ?n2 s = Fin r)"
          "(\<forall>s \<in> set V. \<exists>r. ?n3 s = Fin r)" "(\<forall>s \<in> set V. \<exists>r. ?n4 s = Fin r)"
          "(\<forall>s \<in> set V. \<exists>r. ?n5 s = Fin r)" "(\<forall>s \<in> set V. \<exists>r. ?n6 s = Fin r)"
          "(\<forall>s \<in> set V. \<exists>r. ?n7 s = Fin r)" "(\<forall>s \<in> set V. \<exists>r. ?n8 s = Fin r)"
    using c1 c2 c3 c4 c5 c6 c7 c8 by blast
  then show ?thesis
  proof cases
    case nan
    have "totalScore (scoreStock (cohortMetrics V) s) = NaN" if s: "s \<in> set V" for s
    proof -
      from nan s have "?n1 s = NaN \<or> ?n2 s = NaN \<or> ?n3 s = NaN \<or> ?n4 s = NaN
          \<or> ?n5 s = NaN \<or> ?n6 s = NaN \<or> ?n7 s = NaN \<or> ?n8 s = NaN"
        by blast
      then show ?thesis
        unfolding totalScore_scoreStock by (elim disjE) simp_all
    qed
    then show ?thesis by blast
  next
    case fin
    have "\<exists>t. totalScore (scoreStock (cohortMetrics V) s) = Fin t" if s: "s \<in> set V" for s
    proof -
      obtain r1 where r1: "?n1 s = Fin r1" using fin(1) s by blast
      obtain r2 where r2: "?n2 s = Fin r2" using fin(2) s by blast
      obtain r3 where r3: "?n3 s = Fin r3" using fin(3) s by blast
      obtain r4 where r4: "?n4 s = Fin r4" using fin(4) s by blast
      obtain r5 where r5: "?n5 s = Fin r5" using fin(5) s by blast
      obtain r6 where r6: "?n6 s = Fin r6" using fin(6) s by blast
      obtain r7 where r7: "?n7 s = Fin r7" using fin(7) s by blast
      obtain r8 where r8: "?n8 s = Fin r8" using fin(8) s by blast
      obtain b where b: "beta s = Some b"
        using s by (auto simp: V_def validStock_def)
      show ?thesis
        unfolding totalScore_scoreStock r1 r2 r3 r4 r5 r6 r7 r8 b by simp
    qed
    then show ?thesis by blast
  qed
qed


lemma composite_scores_order:
  "(\<forall>r \<in> set (calculateCompositeScores stocks). totalScore r = NaN)
   \<or> (\<exists>ts. map totalScore (calculateCompositeScores stocks) = map Fin ts
          \<and> sorted_wrt (\<lambda>a b. b \<le> a) ts)"
proof -
  define V where "V = filter validStock stocks"
  define rows where "rows = map (scoreStock (cohortMetrics V)) V"
  have out: "calculateCompositeScores stocks
      = js_sort (\<lambda>a b. js_sub (totalScore b) (totalScore a)) rows"
    by (simp add: calculateCompositeScores_def Let_def rows_def V_def)
  have "(\<forall>r \<in> set rows. totalScore r = NaN) \<or> (\<forall>r \<in> set rows. \<exists>t. totalScore r = Fin t)"
    using totalScore_cohort [of stocks] by (auto simp: rows_def V_def)
  then show ?thesis
  proof
    assume "\<forall>r \<in> set rows. totalScore r = NaN"
    then show ?thesis by (simp add: out set_js_sort)
  next
    assume fin: "\<forall>r \<in> set rows. \<exists>t. totalScore r = Fin t"
    define k :: "CompositeScore \<Rightarrow> real"
      where "k = (\<lambda>r. case totalScore r of Fin t \<Rightarrow> t | _ \<Rightarrow> 0)"
    have key: "\<forall>r \<in> set rows. totalScore r = Fin (k r)"
      using fin by (auto simp: k_def)
    have srt: "sorted_wrt (\<lambda>a b. k b \<le> k a) (calculateCompositeScores stocks)"
      unfolding out using key by (rule js_sort_descending)
    have "map totalScore (calculateCompositeScores stocks)
        = map Fin (map k (calculateCompositeScores stocks))"
      using key by (simp add: out set_js_sort)
    moreover have "sorted_wrt (\<lambda>a b. b \<le> a) (map k (calculateCompositeScores stocks))"
      using srt by (simp add: sorted_wrt_map)
    ultimately show ?thesis by blast
  qed
qed

lemma composite_scores_no_inversion:
  "sorted_wrt (\<lambda>a b. \<not> js_lt (totalScore a) (totalScore b)) (calculateCompositeScores stocks)"
  using composite_scores_order [of stocks]
proof
  assume "\<forall>r \<in> set (calculateCompositeScores stocks). totalScore r = NaN"
  then show ?thesis by (intro sorted_wrt_trivial) simp
next
  assume "\<exists>ts. map totalScore (calculateCompositeScores stocks) = map Fin ts
          \<and> sorted_wrt (\<lambda>a b. b \<le> a) ts"
  then obtain ts where ts: "map totalScore (calculateCompositeScores stocks) = map Fin ts"
    "sorted_wrt (\<lambda>a b. b \<le> a) ts" by blast
  have "sorted_wrt (\<lambda>a b. \<not> js_lt a b) (map Fin ts)"
    using ts(2) by (simp add: sorted_wrt_map not_less)
  then have "sorted_wrt (\<lambda>a b. \<not> js_lt a b) (map totalScore (calculateCompositeScores stocks))"
    by (simp only: ts(1))
  then show ?thesis by (simp add: sorted_wrt_map)
qed

lemma totalScore_weighted:
  "totalScore (scoreStock M s) =
     js_add (js_add (js_add (js_add
        (js_mul (c_value (components (scoreStock M s))) (Fin 0.25))
        (js_mul (c_growth (components (scoreStock M s))) (Fin 0.25)))
        (js_mul (c_quality (components (scoreStock M s))) (Fin 0.20)))
        (js_mul (c_momentum (components (scoreStock M s))) (Fin 0.15)))
        (js_mul (c_stability (components (scoreStock M s))) (Fin 0.15))"
  by (simp add: scoreStock_def Let_def)

text \<open>
  C1. Every row that \<open>calculateCompositeScores\<close> returns has
  \<open>totalScore = 0.25 * value + 0.25 * growth + 0.20 * quality + 0.15 * momentum +
  0.15 * stability\<close> of its own components (in JavaScript arithmetic, and as a real
  number when the components are finite); the weights sum to \<open>1\<close>; and the rows are in
  descending order of \<open>totalScore\<close>: no row has a smaller total than a later one. The
  totals of a batch are either all finite, and then they decrease along the result, or
  all \<open>NaN\<close> (a field whose minimum and maximum over the eligible records coincide).
\<close>

theorem composite_scores_weighted_and_sorted:
  "(\<forall>r \<in> set (calculateCompositeScores stocks).
      totalScore r =
        js_add (js_add (js_add (js_add
          (js_mul (c_value (components r)) (Fin 0.25))
          (js_mul (c_growth (components r)) (Fin 0.25)))
          (js_mul (c_quality (components r)) (Fin 0.20)))
          (js_mul (c_momentum (components r)) (Fin 0.15)))
          (js_mul (c_stability (components r)) (Fin 0.15)))
   \<and> (\<forall>r \<in> set (calculateCompositeScores stocks). \<forall>v g q m s.
        components r = \<lparr> c_value = Fin v, c_growth = Fin g, c_quality = Fin q,
                          c_momentum = Fin m, c_stability = Fin s \<rparr> \<longrightarrow>
        totalScore r = Fin (0.25 * v + 0.25 * g + 0.20 * q + 0.15 * m + 0.15 * s))
   \<and> 0.25 + 0.25 + 0.20 + 0.15 + 0.15 = (1 :: real)
   \<and> sorted_wrt (\<lambda>a b. \<not> js_lt (totalScore a) (totalScore b)) (calculateCompositeScores stocks)
   \<and> ((\<forall>r \<in> set (calculateCompositeScores stocks). totalScore r = NaN)
      \<or> (\<exists>ts. map totalScore (calculateCompositeScores stocks) = map Fin ts
             \<and> sorted_wrt (\<lambda>a b. b \<le> a) ts))"
proof -
  have w: "totalScore r =
        js_add (js_add (js_add (js_add
          (js_mul (c_value (components r)) (Fin 0.25))
          (js_mul (c_growth (components r)) (Fin 0.25)))
          (js_mul (c_quality (components r)) (Fin 0.20)))
          (js_mul (c_momentum (components r)) (Fin 0.15)))
          (js_mul (c_stability (components r)) (Fin 0.15))"
    if "r \<in> set (calculateCompositeScores stocks)" for r
  proof -
    from that obtain s where "r = scoreStock (cohortMetrics (filter validStock stocks)) s"
      by (auto simp: calculateCompositeScores_def Let_def set_js_sort)
    then show ?thesis by (simp only: totalScore_weighted)
  qed
  have wr: "totalScore r = Fin (0.25 * v + 0.25 * g + 0.20 * q + 0.15 * m + 0.15 * s)"
    if "r \<in> set (calculateCompositeScores stocks)"
      "components r = \<lparr> c_value = Fin v, c_growth = Fin g, c_quality = Fin q,
                          c_momentum = Fin m, c_stability = Fin s \<rparr>" for r v g q m s
    using w [OF that(1)] that(2) by (simp add: mult.commute)
  have sum1: "0.25 + 0.25 + 0.20 + 0.15 + 0.15 = (1 :: real)" by simp
  show ?thesis
    using w wr sum1 composite_scores_no_inversion [of stocks] composite_scores_order [of stocks]
    by blast
qed


lemma composite_example:
  "calculateCompositeScores [lowScore, highScore] =
     [\<lparr> cs_ticker = ''HIGH'', cs_sector = ''Tech'', totalScore = Fin 100,
        components = \<lparr> c_value = Fin 100, c_growth = Fin 100, c_quality = Fin 100,
          c_momentum = Fin 100, c_stability = Fin 100 \<rparr> \<rparr>,
      \<lparr> cs_ticker = ''LOW'', cs_sector = ''Tech'', totalScore = Fin 11.25,
        components = \<lparr> c_value = Fin 0, c_growth = Fin 0, c_quality = Fin 0,
          c_momentum = Fin 0, c_stability = Fin 75 \<rparr> \<rparr>]"
  by (simp add: calculateCompositeScores_def Let_def validStock_def lowScore_def highScore_def
      emptyStock_def cohortMetrics_def minMaxOf_def Math_min_def Math_max_def js_min2_def
      js_max2_def scoreStock_def normalizeBy_def normalizeMetric_def js_sort_def js_gt_def)

theorem composite_scores_weighted_and_sorted_witness:
  "\<lparr> cs_ticker = ''LOW'', cs_sector = ''Tech'', totalScore = Fin 11.25,
        components = \<lparr> c_value = Fin 0, c_growth = Fin 0, c_quality = Fin 0,
          c_momentum = Fin 0, c_stability = Fin 75 \<rparr> \<rparr>
     \<in> set (calculateCompositeScores [lowScore, highScore])
   \<and> Fin 11.25 = Fin (0.25 * 0 + 0.25 * 0 + 0.20 * 0 + 0.15 * 0 + 0.15 * 75)
   \<and> map totalScore (calculateCompositeScores [lowScore, highScore]) = [Fin 100, Fin 11.25]
   \<and> sorted_wrt (\<lambda>a b. \<not> js_lt (totalScore a) (totalScore b))
         (calculateCompositeScores [lowScore, highScore])"
proof -
  let ?low = "\<lparr> cs_ticker = ''LOW'', cs_sector = ''Tech'', totalScore = Fin 11.25,
        components = \<lparr> c_value = Fin 0, c_growth = Fin 0, c_quality = Fin 0,
          c_momentum = Fin 0, c_stability = Fin 75 \<rparr> \<rparr>"
  note t = composite_scores_weighted_and_sorted [of "[lowScore, highScore]"]
  have mem: "?low \<in> set (calculateCompositeScores [lowScore, highScore])"
    by (simp add: composite_example)
  have comp: "components ?low = \<lparr> c_value = Fin 0, c_growth = Fin 0, c_quality = Fin 0,
          c_momentum = Fin 0, c_stability = Fin 75 \<rparr>"
    by simp
  have w: "totalScore ?low = Fin (0.25 * 0 + 0.25 * 0 + 0.20 * 0 + 0.15 * 0 + 0.15 * 75)"
    using t mem comp by blast
  have s: "sorted_wrt (\<lambda>a b. \<not> js_lt (totalScore a) (totalScore b))
         (calculateCompositeScores [lowScore, highScore])"
    using t by blast
  have v: "map totalScore (calculateCompositeScores [lowScore, highScore]) = [Fin 100, Fin 11.25]"
    by (simp add: composite_example)
  show ?thesis
    using mem w s v by simp
qed

section \<open>Properties of the Sharpe ratio\<close>

lemma foldl_js_add_Fin: "foldl js_add (Fin a) (map Fin xs) = Fin (a + sum_list xs)"
  by (induction xs arbitrary: a) (simp_all add: add.assoc)

lemma js_sum_Fin: "js_sum (map Fin xs) = Fin (sum_list xs)"
  by (simp add: js_sum_def foldl_js_add_Fin)

lemma js_sum_Fin_comp: "js_sum (map (Fin \<circ> f) xs) = Fin (sum_list (map f xs))"
  using js_sum_Fin [of "map f xs"] by simp

lemma js_pow2_Fin: "js_pow (Fin a) 2 = Fin (a\<^sup>2)"
  by (simp add: numeral_2_eq_2 power2_eq_square)

lemma length_excess: "length (excess rs rf) = length rs"
  by (simp add: excess_def)

lemma computeSharpeRatio_real:
  assumes "2 \<le> length rs"
  shows "computeSharpeRatio (map Fin rs) (Fin rf) =
     (if sampleStdDev (excess rs rf) < 0.0001 then None
      else Some (Fin (mean (excess rs rf) / sampleStdDev (excess rs rf) * sqrt 12)))"
proof -
  let ?e = "excess rs rf"
  have n: "real (length rs) - 1 \<noteq> 0" "real (length rs) \<noteq> 0" "length rs \<noteq> 0"
    using assms by auto
  have e: "map (\<lambda>r. js_sub r (js_div (Fin rf) (Fin 12))) (map Fin rs) = map Fin ?e"
    by (simp add: excess_def js_sub_def o_def)
  have avg: "js_div (js_sum (map Fin ?e)) (Fin (real (length (map Fin ?e)))) = Fin (mean ?e)"
    using n by (simp add: js_sum_Fin mean_def length_excess)
  have sq: "map (\<lambda>r. js_pow (js_sub r (Fin (mean ?e))) 2) (map Fin ?e)
      = map Fin (map (\<lambda>x. (x - mean ?e)\<^sup>2) ?e)"
    by (simp add: js_sub_def o_def js_pow2_Fin)
  have nonneg: "0 \<le> sum_list (map (\<lambda>x. (x - mean ?e)\<^sup>2) ?e) / (real (length ?e) - 1)"
    using assms by (intro divide_nonneg_nonneg sum_list_nonneg) (auto simp: length_excess)
  have sd: "js_sqrt (js_div (js_sum (map Fin (map (\<lambda>x. (x - mean ?e)\<^sup>2) ?e)))
              (Fin (real (length (map Fin ?e)) - 1))) = Fin (sampleStdDev ?e)"
    using n nonneg by (simp add: js_sum_Fin_comp sampleStdDev_def length_excess)
  have pos: "sampleStdDev ?e \<noteq> 0" if "\<not> sampleStdDev ?e < 0.0001"
    using that by auto
  show ?thesis
    unfolding computeSharpeRatio_def Let_def e avg sq sd
    using n pos by simp
qed


text \<open>
  C3. On two or more finite returns \<open>computeSharpeRatio\<close> takes the excess returns over
  the monthly risk-free rate (the annual rate divided by 12), their mean and their sample
  standard deviation (denominator \<open>n - 1\<close>), returns \<open>null\<close> when the deviation is below
  \<open>0.0001\<close>, and otherwise \<open>(mean / deviation) * sqrt 12\<close>; two or more equal returns
  give \<open>null\<close> whatever the rate. One return has no sample deviation (\<open>0 / 0\<close>) and
  gives \<open>NaN\<close>; no return gives \<open>null\<close>.
\<close>

theorem sharpe_ratio_formula:
  "(2 \<le> length rs \<longrightarrow>
      computeSharpeRatio (map Fin rs) (Fin rf) =
        (if sampleStdDev (excess rs rf) < 0.0001 then None
         else Some (Fin (mean (excess rs rf) / sampleStdDev (excess rs rf) * sqrt 12))))
   \<and> (2 \<le> length rs \<and> (\<forall>r \<in> set rs. r = c) \<longrightarrow>
      computeSharpeRatio (map Fin rs) (Fin rf) = None)
   \<and> computeSharpeRatio [Fin r] (Fin rf) = Some NaN
   \<and> computeSharpeRatio [] (Fin rf) = None"
proof -
  have eq: "computeSharpeRatio (map Fin rs) (Fin rf) = None"
    if len: "2 \<le> length rs" and c: "\<forall>r \<in> set rs. r = c"
  proof -
    have rs: "rs = replicate (length rs) c"
      using c by (simp add: replicate_length_same)
    have e: "excess rs rf = replicate (length rs) (c - rf / 12)"
      by (subst rs) (simp add: excess_def)
    have ne: "real (length rs) \<noteq> 0" using len by auto
    have m: "mean (excess rs rf) = c - rf / 12"
      unfolding mean_def by (subst e, subst e) (use len in \<open>auto simp: sum_list_replicate\<close>)
    have "sampleStdDev (excess rs rf) = 0"
      unfolding sampleStdDev_def m by (subst e, subst e) (simp add: sum_list_replicate)
    then show ?thesis
      using computeSharpeRatio_real [OF len, of rf] by simp
  qed
  have one: "computeSharpeRatio [Fin r] (Fin rf) = Some NaN"
    by (simp add: computeSharpeRatio_def js_sum_def js_sub_def numeral_2_eq_2)
  have none: "computeSharpeRatio [] (Fin rf) = None"
    by (simp add: computeSharpeRatio_def)
  show ?thesis
    using computeSharpeRatio_real [of rs rf] eq one none by blast
qed

theorem sharpe_ratio_formula_witness:
  "computeSharpeRatio [Fin 0.05, Fin 0.05, Fin 0.05] (Fin 0.05) = None
   \<and> computeSharpeRatio [Fin 0.05, Fin 0.05, Fin 0.05] (Fin 0.02) = None"
proof -
  have len: "2 \<le> length [0.05, 0.05, 0.05 :: real]" by simp
  have c: "\<forall>r \<in> set [0.05, 0.05, 0.05 :: real]. r = 0.05" by simp
  have "computeSharpeRatio (map Fin [0.05, 0.05, 0.05]) (Fin 0.05) = None"
    using sharpe_ratio_formula [where rs = "[0.05, 0.05, 0.05]" and rf = "0.05" and c = "0.05"]
      len c by blast
  moreover have "computeSharpeRatio (map Fin [0.05, 0.05, 0.05]) (Fin 0.02) = None"
    using sharpe_ratio_formula [where rs = "[0.05, 0.05, 0.05]" and rf = "0.02" and c = "0.05"]
      len c by blast
  ultimately show ?thesis by simp
qed


section \<open>Properties of the correlation\<close>

lemma round_even_of_int: "round_even (of_int i) = i"
  by (simp add: round_even_def)

lemma round_even_bounds: "of_int (round_even x) \<le> x + 1" "x - 1 \<le> of_int (round_even x)"
  unfolding round_even_def Let_def by (auto; linarith)+

text \<open>Rounding in the binade of \<open>x\<close>, when \<open>|x| < 2^53\<close> and \<open>x\<close> is not subnormal.\<close>

lemma round64_scaled:
  fixes k :: nat
  assumes "2 ^ 52 \<le> \<bar>x\<bar> * 2 ^ k" "\<bar>x\<bar> * 2 ^ k < 2 ^ 53" "k \<le> 1074"
  shows "round64 x = Fin (of_int (round_even (x * 2 ^ k)) / 2 ^ k)"
proof -
  have x0: "x \<noteq> 0" using assms(1) by auto
  have pos: "0 < \<bar>x\<bar>" using x0 by simp
  have p: "(2::real) powr (of_int (52 - int k)) = 2 ^ 52 / 2 ^ k"
    by (simp add: powr_diff powr_realpow flip: of_nat_diff)
  have p1: "(2::real) powr (of_int (52 - int k + 1)) = 2 ^ 53 / 2 ^ k"
    by (simp add: powr_diff powr_add powr_realpow)
  have "(2::real) powr (of_int (52 - int k)) \<le> \<bar>x\<bar> \<and> \<bar>x\<bar> < 2 powr (of_int (52 - int k + 1))"
    unfolding p p1 using assms(1,2) by (simp add: field_simps)
  then have e: "\<lfloor>log 2 \<bar>x\<bar>\<rfloor> = 52 - int k"
    using floor_log_eq_powr_iff [of "\<bar>x\<bar>" 2 "52 - int k"] pos by simp
  have m: "max (- 1022) (52 - int k) = 52 - int k" using assms(3) by simp
  have q: "(2::real) powr (of_int (52 - int k) - 52) = 1 / 2 ^ k"
    by (simp add: powr_minus_divide powr_realpow)
  have ax: "\<bar>x * 2 ^ k\<bar> < 2 ^ 53" using assms(2) by (simp add: abs_mult)
  have b: "\<bar>of_int (round_even (x * 2 ^ k)) :: real\<bar> \<le> 2 ^ 53 + 1"
    using round_even_bounds [of "x * 2 ^ k"] ax by linarith
  have "\<bar>of_int (round_even (x * 2 ^ k)) / 2 ^ k :: real\<bar> \<le> 2 ^ 53 + 1"
  proof -
    have "\<bar>of_int (round_even (x * 2 ^ k)) / 2 ^ k :: real\<bar>
        = \<bar>of_int (round_even (x * 2 ^ k))\<bar> / 2 ^ k" by (simp add: abs_divide)
    also have "\<dots> \<le> \<bar>of_int (round_even (x * 2 ^ k))\<bar> / 1"
      by (intro divide_left_mono) simp_all
    finally show ?thesis using b by simp
  qed
  moreover have "(2::real) ^ 53 + 1 < 2 ^ 1024"
  proof -
    have "(2::real) ^ 53 + 1 < 2 ^ 54" by simp
    also have "\<dots> \<le> 2 ^ 1024" by (rule power_increasing) simp_all
    finally show ?thesis .
  qed
  ultimately have small: "\<not> 2 ^ 1024 \<le> \<bar>of_int (round_even (x * 2 ^ k)) / 2 ^ k :: real\<bar>"
    by linarith
  show ?thesis
    unfolding round64_def Let_def e m q using x0 small by simp
qed


text \<open>Integers below \<open>2^53\<close> are doubles.\<close>

lemma round64_of_int:
  assumes "i \<noteq> 0" "\<bar>i\<bar> < 2 ^ 53"
  shows "round64 (of_int i) = Fin (of_int i)"
proof -
  define P where "P = (\<lambda>j::nat. (2::int) ^ 52 \<le> \<bar>i\<bar> * 2 ^ j)"
  have "1 \<le> \<bar>i\<bar>" using assms(1) by simp
  then have "(2::int) ^ 52 * 1 \<le> 2 ^ 52 * \<bar>i\<bar>" by (intro mult_left_mono) simp_all
  then have P52: "P 52" by (simp add: P_def mult.commute)
  define k where "k = (LEAST j. P j)"
  have Pk: "P k" unfolding k_def using P52 by (rule LeastI)
  have k52: "k \<le> 52" unfolding k_def using P52 by (rule Least_le)
  have up: "\<bar>i\<bar> * 2 ^ k < 2 ^ 53"
  proof (cases k)
    case 0
    then show ?thesis using assms(2) by simp
  next
    case (Suc j)
    have "\<not> P j" using not_less_Least [of j P] Suc by (simp add: k_def)
    then have "\<bar>i\<bar> * 2 ^ j < 2 ^ 52" by (simp add: P_def)
    then show ?thesis using Suc by simp
  qed
  have a1: "(2::real) ^ 52 \<le> \<bar>of_int i\<bar> * 2 ^ k"
  proof -
    have "real_of_int (2 ^ 52) \<le> real_of_int (\<bar>i\<bar> * 2 ^ k)"
      using Pk unfolding P_def by (rule of_int_le_iff [THEN iffD2])
    then show ?thesis by simp
  qed
  have a2: "\<bar>of_int i :: real\<bar> * 2 ^ k < 2 ^ 53"
  proof -
    have "real_of_int (\<bar>i\<bar> * 2 ^ k) < real_of_int (2 ^ 53)"
      using up by (rule of_int_less_iff [THEN iffD2])
    then show ?thesis by simp
  qed
  have a3: "k \<le> 1074" using k52 by simp
  have "(of_int i :: real) * 2 ^ k = of_int (i * 2 ^ k)" by simp
  then have "round_even (of_int i * 2 ^ k) = i * 2 ^ k"
    by (simp only: round_even_of_int)
  then show ?thesis
    using round64_scaled [OF a1 a2 a3] by simp
qed

lemma round64_0 [simp]: "round64 0 = Fin 0"
  by (simp add: round64_def)

lemma round64_1 [simp]: "round64 1 = Fin 1"
  using round64_of_int [of 1] by simp

lemma round64_numeral:
  "(numeral n :: int) < 2 ^ 53 \<Longrightarrow> round64 (numeral n) = Fin (numeral n)"
  using round64_of_int [of "numeral n"] by simp

lemma round64_neg_numeral:
  "(numeral n :: int) < 2 ^ 53 \<Longrightarrow> round64 (- numeral n) = Fin (- numeral n)"
  using round64_of_int [of "- numeral n"] by simp

lemma round64_neg_1 [simp]: "round64 (- 1) = Fin (- 1)"
  using round64_of_int [of "- 1"] by simp

text \<open>The roundings that occur on five times \<open>0.7\<close> against \<open>1, 2, 3, 4, 5\<close>.\<close>

lemma round64_step0: "round64 (7 / 10) = Fin (3152519739159347 / 4503599627370496)"
  by (subst round64_scaled [where k = 53]) (simp_all add: round_even_def)

lemma round64_step1: "round64 (3152519739159347 / 4503599627370496) = Fin (3152519739159347 / 4503599627370496)"
  by (subst round64_scaled [where k = 53]) (simp_all add: round_even_def)

lemma round64_step2: "round64 (3152519739159347 / 2251799813685248) = Fin (3152519739159347 / 2251799813685248)"
  by (subst round64_scaled [where k = 52]) (simp_all add: round_even_def)

lemma round64_step3: "round64 (9457559217478041 / 4503599627370496) = Fin (1182194902184755 / 562949953421312)"
  by (subst round64_scaled [where k = 51]) (simp_all add: round_even_def)

lemma round64_step4: "round64 (12610078956637387 / 4503599627370496) = Fin (3152519739159347 / 1125899906842624)"
  by (subst round64_scaled [where k = 51]) (simp_all add: round_even_def)

lemma round64_step5: "round64 (15762598695796735 / 4503599627370496) = Fin (7 / 2)"
  by (subst round64_scaled [where k = 51]) (simp_all add: round_even_def)

lemma round64_step6: "round64 (9938380705789317246726257466409 / 20282409603651670423947251286016) = Fin (8827055269646171 / 18014398509481984)"
  by (subst round64_scaled [where k = 54]) (simp_all add: round_even_def)

lemma round64_step7: "round64 (8827055269646171 / 18014398509481984) = Fin (8827055269646171 / 18014398509481984)"
  by (subst round64_scaled [where k = 54]) (simp_all add: round_even_def)

lemma round64_step8: "round64 (8827055269646171 / 9007199254740992) = Fin (8827055269646171 / 9007199254740992)"
  by (subst round64_scaled [where k = 53]) (simp_all add: round_even_def)

lemma round64_step9: "round64 (26481165808938513 / 18014398509481984) = Fin (1655072863058657 / 1125899906842624)"
  by (subst round64_scaled [where k = 52]) (simp_all add: round_even_def)

lemma round64_step10: "round64 (35308221078584683 / 18014398509481984) = Fin (8827055269646171 / 4503599627370496)"
  by (subst round64_scaled [where k = 52]) (simp_all add: round_even_def)

lemma round64_step11: "round64 (44135276348230855 / 18014398509481984) = Fin (5516909543528857 / 2251799813685248)"
  by (subst round64_scaled [where k = 51]) (simp_all add: round_even_def)

lemma round64_step12: "round64 (27584547717644285 / 2251799813685248) = Fin (6896136929411071 / 562949953421312)"
  by (subst round64_scaled [where k = 49]) (simp_all add: round_even_def)

lemma round64_step13: "round64 (49 / 4) = Fin (49 / 4)"
  by (subst round64_scaled [where k = 49]) (simp_all add: round_even_def)

lemma round64_step14: "round64 (- (1 / 562949953421312)) = Fin (- (1 / 562949953421312))"
  by (subst round64_scaled [where k = 101]) (simp_all add: round_even_def)

lemma round64_step15: "round64 (- (25 / 281474976710656)) = Fin (- (25 / 281474976710656))"
  by (subst round64_scaled [where k = 96]) (simp_all add: round_even_def)

lemmas round64_steps = round64_step0 round64_step1 round64_step2 round64_step3 round64_step4 round64_step5 round64_step6 round64_step7 round64_step8 round64_step9 round64_step10 round64_step11 round64_step12 round64_step13 round64_step14 round64_step15

text \<open>
  C6. The claim: a pair in which one series is constant gives \<open>0\<close>, not \<open>NaN\<close>. The
  code guards with \<open>denominator === 0\<close>, and in doubles the guard misses constant series
  whose sums round: for \<open>x = [0.7, 0.7, 0.7, 0.7, 0.7]\<close> and \<open>y = [1, 2, 3, 4, 5]\<close>,
  \<open>n * sum_x2 - sum_x * sum_x\<close> is \<open>-2^-49\<close>, the product under the root is negative, the
  root is \<open>NaN\<close>, \<open>NaN === 0\<close> is false, and \<open>calculatePearsonCorrelation\<close> returns
  \<open>NaN\<close>, in either order of the arguments.
\<close>

theorem pearson_constant_series_gives_NaN:
  "calculatePearsonCorrelation (map round64 [0.7, 0.7, 0.7, 0.7, 0.7])
       (map round64 [1, 2, 3, 4, 5]) = NaN
   \<and> calculatePearsonCorrelation (map round64 [1, 2, 3, 4, 5])
       (map round64 [0.7, 0.7, 0.7, 0.7, 0.7]) = NaN"
  by (simp add: calculatePearsonCorrelation_def Let_def d_add_def d_sub_def d_mul_def d_div_def
      d_sqrt_def js_eq_def js_nth_def round64_steps round64_numeral round64_neg_numeral)

section \<open>Properties of the dividend metrics\<close>

lemma paysDividend_iff:
  "paysDividend s = (case dividend_yield s of None \<Rightarrow> False | Some y \<Rightarrow> 0 < y)"
  by (simp add: paysDividend_def js_gt_def split: option.splits)


lemma bumpTotals_fst: "fst (bumpTotals r e) = fst e"
  by (cases e) (simp add: bumpTotals_def)

lemma bumpTotals_absent:
  "dm_sector r \<notin> fst ` set acc \<Longrightarrow> map (bumpTotals r) acc = acc"
  by (induction acc) (auto simp: bumpTotals_def)

lemma counted_bump:
  "distinct (map fst acc) \<Longrightarrow> dm_sector r \<in> fst ` set acc \<Longrightarrow>
   counted (map (bumpTotals r) acc) = counted acc + 1"
proof (induction acc)
  case Nil
  then show ?case by simp
next
  case (Cons e acc)
  show ?case
  proof (cases "fst e = dm_sector r")
    case True
    then have "dm_sector r \<notin> fst ` set acc" using Cons.prems(1) by auto
    then have "map (bumpTotals r) acc = acc" by (rule bumpTotals_absent)
    then show ?thesis using True by (cases e) (simp add: counted_def bumpTotals_def)
  next
    case False
    then have "dm_sector r \<in> fst ` set acc" using Cons.prems(2) by auto
    then have "counted (map (bumpTotals r) acc) = counted acc + 1"
      using Cons.IH Cons.prems(1) by simp
    then show ?thesis using False by (cases e) (simp add: counted_def bumpTotals_def)
  qed
qed

lemma addToSector_alt:
  "addToSector acc r = map (bumpTotals r)
     (if dm_sector r \<in> fst ` set acc then acc
      else acc @ [(dm_sector r, \<lparr> st_count = 0, totalYield = Fin 0, totalPayout = Fin 0,
                      totalGrowth = Fin 0 \<rparr>)])"
  by (simp add: addToSector_def bumpTotals_def map_of_eq_None_iff)

lemma addToSector_distinct:
  "distinct (map fst acc) \<Longrightarrow> distinct (map fst (addToSector acc r))"
  by (auto simp: addToSector_alt o_def bumpTotals_fst)

lemma addToSector_counted:
  assumes "distinct (map fst acc)"
  shows "counted (addToSector acc r) = counted acc + 1"
proof (cases "dm_sector r \<in> fst ` set acc")
  case True
  then show ?thesis using assms by (simp add: addToSector_alt counted_bump)
next
  case False
  let ?acc1 = "acc @ [(dm_sector r, \<lparr> st_count = 0, totalYield = Fin 0, totalPayout = Fin 0,
                      totalGrowth = Fin 0 \<rparr>)]"
  have d: "distinct (map fst ?acc1)" using assms False by auto
  have m: "dm_sector r \<in> fst ` set ?acc1" by simp
  have "counted (map (bumpTotals r) ?acc1) = counted ?acc1 + 1"
    using d m by (rule counted_bump)
  moreover have "counted ?acc1 = counted acc" by (simp add: counted_def)
  ultimately show ?thesis using False by (simp add: addToSector_alt)
qed

lemma foldl_addToSector_counted:
  "distinct (map fst acc) \<Longrightarrow>
   counted (foldl addToSector acc rows) = counted acc + length rows
   \<and> distinct (map fst (foldl addToSector acc rows))"
proof (induction rows arbitrary: acc)
  case Nil
  then show ?case by simp
next
  case (Cons r rows)
  have d: "distinct (map fst (addToSector acc r))"
    using Cons.prems by (rule addToSector_distinct)
  show ?case
    using Cons.IH [OF d] addToSector_counted [OF Cons.prems, of r] by simp
qed

lemma stockCount_total:
  "sum_list (map stockCount (calculateSectorAverages rows)) = length rows"
proof -
  have "mset (map stockCount (calculateSectorAverages rows))
      = mset (map stockCount (map sectorRow (foldl addToSector [] rows)))"
    unfolding calculateSectorAverages_def by (metis mset_js_sort mset_map)
  then have "sum_list (map stockCount (calculateSectorAverages rows))
      = sum_list (map stockCount (map sectorRow (foldl addToSector [] rows)))"
    by (metis sum_mset_sum_list)
  also have "\<dots> = counted (foldl addToSector [] rows)"
    by (simp add: counted_def o_def sectorRow_def split_def)
  also have "\<dots> = length rows"
    using foldl_addToSector_counted [of "[]" rows] by (simp add: counted_def)
  finally show ?thesis .
qed

text \<open>
  C9. \<open>calculateDividendMetrics\<close> returns a row for a record exactly when its dividend
  yield is a number greater than \<open>0\<close>: the rows are those of the records with a positive
  yield, with multiplicity; a record whose yield is \<open>0\<close> or \<open>null\<close> has no row, the
  result is the same without it, and the sector aggregates built on the rows count
  exactly the records with a positive yield.
\<close>

theorem dividend_metrics_require_positive_yield:
  fixes stocks :: "StockData list"
  defines "positive \<equiv> \<lambda>s. case dividend_yield s of None \<Rightarrow> False | Some y \<Rightarrow> 0 < y"
  shows "mset (calculateDividendMetrics stocks) = mset (map dividendRow (filter positive stocks))
    \<and> (\<forall>s \<in> set stocks.
          (dividend_yield s = None \<or> dividend_yield s = Some 0)
          \<longrightarrow> dividendRow s \<notin> set (calculateDividendMetrics stocks))
    \<and> calculateDividendMetrics stocks = calculateDividendMetrics (filter positive stocks)
    \<and> sum_list (map stockCount (calculateSectorAverages (calculateDividendMetrics stocks)))
         = length (filter positive stocks)"
proof -
  have p: "positive = paysDividend"
    by (rule ext) (simp add: positive_def paysDividend_iff)
  have 1: "mset (calculateDividendMetrics stocks)
      = mset (map dividendRow (filter paysDividend stocks))"
    by (simp add: calculateDividendMetrics_def mset_js_sort)
  have 2: "dividendRow s \<notin> set (calculateDividendMetrics stocks)"
    if "dividend_yield s = None \<or> dividend_yield s = Some 0" for s
  proof
    assume "dividendRow s \<in> set (calculateDividendMetrics stocks)"
    then have "dividendRow s \<in> set (map dividendRow (filter paysDividend stocks))"
      by (simp only: calculateDividendMetrics_def set_js_sort)
    then obtain s' where s': "paysDividend s'" "dividendRow s' = dividendRow s" by auto
    from s'(2) have "dm_dividend_yield (dividendRow s') = dm_dividend_yield (dividendRow s)"
      by simp
    then have "dividend_yield s' = dividend_yield s" by (simp add: dividendRow_def)
    then show False using s'(1) that by (auto simp: paysDividend_iff)
  qed
  have 3: "calculateDividendMetrics stocks
      = calculateDividendMetrics (filter paysDividend stocks)"
    by (simp add: calculateDividendMetrics_def)
  have 4: "sum_list (map stockCount (calculateSectorAverages (calculateDividendMetrics stocks)))
         = length (filter paysDividend stocks)"
    by (simp add: stockCount_total calculateDividendMetrics_def length_js_sort)
  show ?thesis using 1 2 3 4 by (simp add: p)
qed


theorem dividend_metrics_require_positive_yield_witness:
  "zeroYield \<in> set [payer, zeroYield, noYield] \<and> dividend_yield zeroYield = Some 0
   \<and> dividendRow zeroYield \<notin> set (calculateDividendMetrics [payer, zeroYield, noYield])
   \<and> noYield \<in> set [payer, zeroYield, noYield] \<and> dividend_yield noYield = None
   \<and> dividendRow noYield \<notin> set (calculateDividendMetrics [payer, zeroYield, noYield])
   \<and> mset (calculateDividendMetrics [payer, zeroYield, noYield]) = {# dividendRow payer #}"
proof -
  have z: "dividend_yield zeroYield = Some 0"
    by (simp add: zeroYield_def emptyStock_def)
  have n: "dividend_yield noYield = None"
    by (simp add: noYield_def emptyStock_def)
  have p: "dividend_yield payer = Some 2.5"
    by (simp add: payer_def emptyStock_def)
  note t = dividend_metrics_require_positive_yield [of "[payer, zeroYield, noYield]"]
  have "dividendRow zeroYield \<notin> set (calculateDividendMetrics [payer, zeroYield, noYield])"
    using t by (simp add: z n p dividendRow_def payer_def zeroYield_def emptyStock_def)
  moreover have "dividendRow noYield \<notin> set (calculateDividendMetrics [payer, zeroYield, noYield])"
    using t by (simp add: z n p dividendRow_def payer_def noYield_def emptyStock_def)
  moreover have "mset (calculateDividendMetrics [payer, zeroYield, noYield]) = {# dividendRow payer #}"
    using t by (simp add: z n p)
  ultimately show ?thesis by (simp add: z n)
qed

section \<open>Properties of the risk/return view\<close>

lemma sharpe_of_stock:
  "change_1m s = Some a \<Longrightarrow> change_6m s = Some b \<Longrightarrow> change_1y s = Some c \<Longrightarrow>
   fm_sharpeRatio (calculateStockMetrics s (Fin rf)) =
     computeSharpeRatio (map Fin [a / 100, b / 100, c / 100]) (Fin rf)"
  by (simp add: calculateStockMetrics_def Let_def)

lemma sharpe_flatReturns:
  "fm_sharpeRatio (calculateStockMetrics flatReturns (Fin 0.05)) = None"
proof -
  have "computeSharpeRatio (map Fin [5 / 100, 5 / 100, 5 / 100]) (Fin 0.05) = None"
    by (subst computeSharpeRatio_real) (simp_all add: sampleStdDev_def excess_def mean_def)
  then show ?thesis
    by (subst sharpe_of_stock [of _ 5 5 5]) (simp_all add: flatReturns_def emptyStock_def)
qed

lemma sharpe_zeroSharpe:
  "fm_sharpeRatio (calculateStockMetrics zeroSharpe (Fin 0.05)) = Some (Fin 0)"
proof -
  let ?rs = "[0 / 100, 0 / 100, 1.25 / 100 :: real]"
  have m: "mean (excess ?rs 0.05) = 0"
    by (simp add: excess_def mean_def)
  have "sampleStdDev (excess ?rs 0.05) = sqrt (1 / 19200)"
    unfolding sampleStdDev_def m by (simp add: excess_def power2_eq_square)
  moreover have "1 / 10000 \<le> sqrt (1 / 19200 :: real)"
    by (rule real_le_rsqrt) (simp add: power2_eq_square)
  ultimately have sd: "\<not> sampleStdDev (excess ?rs 0.05) < 0.0001"
    by simp
  have "computeSharpeRatio (map Fin ?rs) (Fin 0.05) = Some (Fin 0)"
    using sd m by (subst computeSharpeRatio_real) simp_all
  then show ?thesis
    by (subst sharpe_of_stock [of _ 0 0 "1.25"]) (simp_all add: zeroSharpe_def emptyStock_def)
qed


text \<open>
  C10. The rows of the risk/return view are those of the records with all three returns.
  Where the metrics computation gives \<open>null\<close> for the Sharpe ratio or for the
  risk-adjusted return, the row of the record holds \<open>0\<close> in that field; so the Sharpe
  field of a record with an undefined Sharpe ratio equals that of a record whose Sharpe
  ratio is \<open>0\<close>.
\<close>

theorem undefined_risk_metrics_are_reported_as_zero:
  "mset (calculateRiskReturnMetrics stocks) = mset (map riskReturnRow (filter hasReturns stocks))
   \<and> (\<forall>s \<in> set stocks.
         hasReturns s \<and> fm_sharpeRatio (calculateStockMetrics s (Fin 0.05)) = None \<longrightarrow>
         riskReturnRow s \<in> set (calculateRiskReturnMetrics stocks)
         \<and> rr_sharpeRatio (riskReturnRow s) = Fin 0)
   \<and> (\<forall>s \<in> set stocks.
         hasReturns s \<and> fm_riskAdjustedReturn (calculateStockMetrics s (Fin 0.05)) = None \<longrightarrow>
         riskReturnRow s \<in> set (calculateRiskReturnMetrics stocks)
         \<and> rr_riskAdjustedReturn (riskReturnRow s) = Fin 0)
   \<and> (\<forall>s1 s2.
         fm_sharpeRatio (calculateStockMetrics s1 (Fin 0.05)) = None
         \<and> fm_sharpeRatio (calculateStockMetrics s2 (Fin 0.05)) = Some (Fin 0) \<longrightarrow>
         rr_sharpeRatio (riskReturnRow s1) = rr_sharpeRatio (riskReturnRow s2))"
proof -
  have m: "mset (calculateRiskReturnMetrics stocks)
      = mset (map riskReturnRow (filter hasReturns stocks))"
    by (simp add: calculateRiskReturnMetrics_def mset_js_sort)
  have mem: "riskReturnRow s \<in> set (calculateRiskReturnMetrics stocks)"
    if "s \<in> set stocks" "hasReturns s" for s
    using that by (simp add: calculateRiskReturnMetrics_def set_js_sort)
  have sh: "rr_sharpeRatio (riskReturnRow s) = Fin 0"
    if "fm_sharpeRatio (calculateStockMetrics s (Fin 0.05)) = None" for s
    using that by (simp add: riskReturnRow_def Let_def)
  have ra: "rr_riskAdjustedReturn (riskReturnRow s) = Fin 0"
    if "fm_riskAdjustedReturn (calculateStockMetrics s (Fin 0.05)) = None" for s
    using that by (simp add: riskReturnRow_def Let_def)
  have same: "rr_sharpeRatio (riskReturnRow s1) = rr_sharpeRatio (riskReturnRow s2)"
    if "fm_sharpeRatio (calculateStockMetrics s1 (Fin 0.05)) = None"
      "fm_sharpeRatio (calculateStockMetrics s2 (Fin 0.05)) = Some (Fin 0)" for s1 s2
    using that by (simp add: riskReturnRow_def Let_def)
  show ?thesis
    using m mem sh ra same by blast
qed

lemma hasReturns_examples: "hasReturns flatReturns" "hasReturns zeroSharpe"
  by (simp_all add: hasReturns_def flatReturns_def zeroSharpe_def emptyStock_def)

lemma riskAdjusted_flatReturns:
  "fm_riskAdjustedReturn (calculateStockMetrics flatReturns (Fin 0.05)) = None"
  by (simp add: calculateStockMetrics_def Let_def flatReturns_def emptyStock_def)

theorem undefined_risk_metrics_are_reported_as_zero_witness:
  "flatReturns \<in> set [flatReturns, zeroSharpe] \<and> hasReturns flatReturns
   \<and> fm_sharpeRatio (calculateStockMetrics flatReturns (Fin 0.05)) = None
   \<and> fm_riskAdjustedReturn (calculateStockMetrics flatReturns (Fin 0.05)) = None
   \<and> fm_sharpeRatio (calculateStockMetrics zeroSharpe (Fin 0.05)) = Some (Fin 0)
   \<and> riskReturnRow flatReturns \<in> set (calculateRiskReturnMetrics [flatReturns, zeroSharpe])
   \<and> rr_sharpeRatio (riskReturnRow flatReturns) = Fin 0
   \<and> rr_riskAdjustedReturn (riskReturnRow flatReturns) = Fin 0
   \<and> rr_sharpeRatio (riskReturnRow flatReturns) = rr_sharpeRatio (riskReturnRow zeroSharpe)"
proof -
  note t = undefined_risk_metrics_are_reported_as_zero [of "[flatReturns, zeroSharpe]"]
  have mem: "flatReturns \<in> set [flatReturns, zeroSharpe]" by simp
  show ?thesis
    using t mem hasReturns_examples(1) sharpe_flatReturns riskAdjusted_flatReturns
      sharpe_zeroSharpe
    by blast
qed


section \<open>Properties of clustering\<close>

subsection \<open>Grouping by sector\<close>

lemma groupStep_grouped:
  assumes "grouped stocks groups" "sector x \<notin> set object_prototype_keys"
  shows "\<exists>groups'. groupStep (Inr groups) x = Inr groups' \<and> grouped (stocks @ [x]) groups'"
proof (cases "map_of groups (sector x)")
  case None
  then have new: "sector x \<notin> fst ` set groups" by (simp add: map_of_eq_None_iff)
  then have "sector x \<notin> sector ` set stocks"
    using assms(1) by (simp add: grouped_def)
  then have "\<forall>st \<in> set stocks. sector st \<noteq> sector x"
    by (metis imageI)
  then have nox: "filter (\<lambda>st. sector st = sector x) stocks = []"
    by (simp add: filter_empty_conv)
  have step: "groupStep (Inr groups) x = Inr (groups @ [(sector x, [x])])"
    using None assms(2) by (simp add: groupStep_def)
  have "grouped (stocks @ [x]) (groups @ [(sector x, [x])])"
    using assms(1) new nox by (auto simp: grouped_def)
  then show ?thesis using step by blast
next
  case (Some g)
  then have "(sector x, g) \<in> set groups" by (rule map_of_SomeD)
  then have old: "sector x \<in> fst ` set groups" by force
  let ?upd = "\<lambda>(k, v). if k = sector x then (k, v @ [x]) else (k, v)"
  have step: "groupStep (Inr groups) x = Inr (map ?upd groups)"
    using Some assms(2) by (simp add: groupStep_def)
  have fst: "map fst (map ?upd groups) = map fst groups"
    by (induction groups) (auto simp: split_def)
  have "grouped (stocks @ [x]) (map ?upd groups)"
    unfolding grouped_def
  proof (intro conjI ballI)
    show "distinct (map fst (map ?upd groups))"
      using assms(1) by (simp only: fst grouped_def)
    show "fst ` set (map ?upd groups) = sector ` set (stocks @ [x])"
      using assms(1) old fst by (metis (no_types, lifting) grouped_def image_insert
          insert_absorb list.set(2) list.set_map rotate1.simps(2) set_rotate1)
    fix e assume "e \<in> set (map ?upd groups)"
    then obtain e0 where e0: "e0 \<in> set groups" "e = ?upd e0" by auto
    have "snd e0 = filter (\<lambda>st. sector st = fst e0) stocks"
      using assms(1) e0(1) by (simp add: grouped_def)
    then show "snd e = filter (\<lambda>st. sector st = fst e) (stocks @ [x])"
      using e0(2) by (cases e0) auto
  qed
  then show ?thesis using step by blast
qed

lemma stocksBySector_grouped:
  assumes "\<forall>st \<in> set stocks. sector st \<notin> set object_prototype_keys"
  shows "\<exists>groups. stocksBySector stocks = Inr groups \<and> grouped stocks groups"
  using assms
proof (induction stocks rule: rev_induct)
  case Nil
  show ?case by (simp add: stocksBySector_def grouped_def)
next
  case (snoc x stocks)
  then obtain groups where g: "stocksBySector stocks = Inr groups" "grouped stocks groups"
    by auto
  have "sector x \<notin> set object_prototype_keys" using snoc.prems by simp
  from groupStep_grouped [OF g(2) this]
  show ?case using g(1) by (simp add: stocksBySector_def)
qed

lemma mset_Object_entries: "mset (Object_entries props) = mset props"
  by (simp add: Object_entries_def)


subsection \<open>The correlation table\<close>

lemma foldl_update_dom:
  "(foldl (\<lambda>m st. m(ticker st \<mapsto> h st)) m0 xs) t \<noteq> None
     \<longleftrightarrow> (t \<in> ticker ` set xs \<or> m0 t \<noteq> None)"
  by (induction xs arbitrary: m0) auto

lemma correlationTable_defined:
  "st \<in> set sectorStocks \<Longrightarrow> correlationTable sectorStocks (ticker st) \<noteq> None"
  unfolding correlationTable_def by (subst foldl_update_dom) simp

lemma readCorrelation_defined:
  "correlations t1 \<noteq> None \<Longrightarrow> \<exists>v. readCorrelation correlations t1 t2 = Inr v"
  by (auto simp: readCorrelation_def split: option.splits)

lemma foldl_pairStep_defined:
  "\<forall>p \<in> set ps. correlations (ticker (fst p)) \<noteq> None \<Longrightarrow>
   \<exists>r. foldl (pairStep correlations) (Inr a) ps = Inr r"
proof (induction ps arbitrary: a)
  case Nil
  show ?case by simp
next
  case (Cons p ps)
  obtain v where v: "readCorrelation correlations (ticker (fst p)) (ticker (snd p)) = Inr v"
    using Cons.prems readCorrelation_defined by (metis list.set_intros(1))
  have "pairStep correlations (Inr a) p = Inr (addTotal (fst a) v, snd a + 1)"
    by (simp add: pairStep_def v split_def)
  then show ?case using Cons by simp
qed

lemma clusterPairs_fst: "p \<in> set (clusterPairs cs) \<Longrightarrow> fst p \<in> set cs"
  by (auto simp: clusterPairs_def in_set_enumerate_eq)

lemma makeCluster_defined:
  assumes "set cs \<subseteq> set sectorStocks"
  shows "\<exists>c. makeCluster (correlationTable sectorStocks) s i cs = Inr c
           \<and> cl_stocks c = map ticker cs \<and> cl_sector c = s
           \<and> risk_score c = js_min2 (Fin 100) (js_mul (avg_correlation c) (Fin 100))"
proof -
  have "\<forall>p \<in> set (clusterPairs cs). correlationTable sectorStocks (ticker (fst p)) \<noteq> None"
    using assms clusterPairs_fst correlationTable_defined by blast
  then obtain r where
    "foldl (pairStep (correlationTable sectorStocks)) (Inr (NumTotal (Fin 0), 0))
       (clusterPairs cs) = Inr r"
    using foldl_pairStep_defined by blast
  then show ?thesis
    by (cases r) (simp add: makeCluster_def Let_def)
qed

lemma makeCluster_risk:
  "makeCluster correlations s i cs = Inr c \<Longrightarrow>
   risk_score c = js_min2 (Fin 100) (js_mul (avg_correlation c) (Fin 100))"
  by (auto simp: makeCluster_def Let_def split: sum.splits prod.splits)

subsection \<open>The loop over a sector\<close>

lemma keptGroups_Nil: "keptGroups [] = []"
  by (simp add: keptGroups_def consecutiveGroups.simps)

lemma keptGroups_step:
  "xs \<noteq> [] \<Longrightarrow>
   keptGroups xs = (if length (take clusterSize xs) < 2 then [] else [take clusterSize xs])
     @ keptGroups (drop clusterSize xs)"
  by (subst keptGroups_def, subst consecutiveGroups.simps) (auto simp: keptGroups_def)

lemma clusterLoop_groups:
  "\<exists>new. clusterLoop (correlationTable sectorStocks) s sectorStocks i clusters
            = Inr (clusters @ new)
     \<and> map cl_stocks new = keptGroups (map ticker (drop i sectorStocks))
     \<and> (\<forall>c \<in> set new. cl_sector c = s
           \<and> risk_score c = js_min2 (Fin 100) (js_mul (avg_correlation c) (Fin 100)))"
proof (induction "correlationTable sectorStocks" s sectorStocks i clusters
    rule: clusterLoop.induct)
  case (1 s sectorStocks i clusters)
  let ?T = "correlationTable sectorStocks"
  let ?cs = "take clusterSize (drop i sectorStocks)"
  show ?case
  proof (cases "i < length sectorStocks")
    case False
    then show ?thesis
      by (subst clusterLoop.simps) (simp add: keptGroups_Nil)
  next
    case True
    then have ne: "map ticker (drop i sectorStocks) \<noteq> []" by simp
    have kg: "keptGroups (map ticker (drop i sectorStocks))
        = (if length ?cs < 2 then [] else [map ticker ?cs])
          @ keptGroups (map ticker (drop (i + clusterSize) sectorStocks))"
      by (subst keptGroups_step [OF ne]) (simp add: take_map drop_map add.commute)
    show ?thesis
    proof (cases "length ?cs < 2")
      case short: True
      from "1.hyps"(1) [OF True refl short]
      obtain new where new:
        "clusterLoop ?T s sectorStocks (i + clusterSize) clusters = Inr (clusters @ new)"
        "map cl_stocks new = keptGroups (map ticker (drop (i + clusterSize) sectorStocks))"
        "\<forall>c \<in> set new. cl_sector c = s
           \<and> risk_score c = js_min2 (Fin 100) (js_mul (avg_correlation c) (Fin 100))"
        by blast
      have "clusterLoop ?T s sectorStocks i clusters = Inr (clusters @ new)"
        by (subst clusterLoop.simps) (use True short new(1) in \<open>simp add: Let_def\<close>)
      then show ?thesis using new(2,3) kg short by auto
    next
      case long: False
      have sub: "set ?cs \<subseteq> set sectorStocks"
        by (meson set_take_subset set_drop_subset subset_trans)
      obtain c where c: "makeCluster ?T s i ?cs = Inr c"
        "cl_stocks c = map ticker ?cs" "cl_sector c = s"
        "risk_score c = js_min2 (Fin 100) (js_mul (avg_correlation c) (Fin 100))"
        using makeCluster_defined [OF sub] by blast
      from "1.hyps"(2) [OF True refl long c(1)]
      obtain new where new:
        "clusterLoop ?T s sectorStocks (i + clusterSize) (clusters @ [c])
           = Inr ((clusters @ [c]) @ new)"
        "map cl_stocks new = keptGroups (map ticker (drop (i + clusterSize) sectorStocks))"
        "\<forall>c \<in> set new. cl_sector c = s
           \<and> risk_score c = js_min2 (Fin 100) (js_mul (avg_correlation c) (Fin 100))"
        by blast
      have "clusterLoop ?T s sectorStocks i clusters = Inr (clusters @ (c # new))"
        by (subst clusterLoop.simps) (use True long new(1) c(1) in \<open>simp add: Let_def\<close>)
      moreover have "map cl_stocks (c # new) = keptGroups (map ticker (drop i sectorStocks))"
        using kg long new(2) c(2) by simp
      moreover have "\<forall>c' \<in> set (c # new). cl_sector c' = s
           \<and> risk_score c' = js_min2 (Fin 100) (js_mul (avg_correlation c') (Fin 100))"
        using new(3) c(3,4) by simp
      ultimately show ?thesis by blast
    qed
  qed
qed


subsection \<open>All sectors\<close>

lemma foldl_sectorStep_groups:
  "\<exists>cs. foldl sectorStep (Inr acc) entries = Inr cs
     \<and> ((\<forall>c \<in> set acc. risk_score c = js_min2 (Fin 100) (js_mul (avg_correlation c) (Fin 100)))
        \<longrightarrow> (\<forall>c \<in> set cs. risk_score c = js_min2 (Fin 100) (js_mul (avg_correlation c) (Fin 100))))
     \<and> (\<forall>s. map cl_stocks (filter (\<lambda>c. cl_sector c = s) cs)
            = map cl_stocks (filter (\<lambda>c. cl_sector c = s) acc)
              @ concat (map (\<lambda>e. if fst e = s then keptGroups (map ticker (snd e)) else [])
                          entries))"
proof (induction entries arbitrary: acc)
  case Nil
  show ?case by simp
next
  case (Cons e entries)
  obtain new where new:
    "clusterLoop (correlationTable (snd e)) (fst e) (snd e) 0 acc = Inr (acc @ new)"
    "map cl_stocks new = keptGroups (map ticker (drop 0 (snd e)))"
    "\<forall>c \<in> set new. cl_sector c = fst e
       \<and> risk_score c = js_min2 (Fin 100) (js_mul (avg_correlation c) (Fin 100))"
    using clusterLoop_groups [of "snd e" "fst e" 0 acc] by blast
  have step: "sectorStep (Inr acc) e = Inr (acc @ new)"
    by (simp add: sectorStep_def new(1))
  obtain cs where cs: "foldl sectorStep (Inr (acc @ new)) entries = Inr cs"
    "(\<forall>c \<in> set (acc @ new). risk_score c = js_min2 (Fin 100) (js_mul (avg_correlation c) (Fin 100)))
        \<longrightarrow> (\<forall>c \<in> set cs. risk_score c = js_min2 (Fin 100) (js_mul (avg_correlation c) (Fin 100)))"
    "\<forall>s. map cl_stocks (filter (\<lambda>c. cl_sector c = s) cs)
            = map cl_stocks (filter (\<lambda>c. cl_sector c = s) (acc @ new))
              @ concat (map (\<lambda>e. if fst e = s then keptGroups (map ticker (snd e)) else [])
                          entries)"
    using Cons [of "acc @ new"] by blast
  have f: "filter (\<lambda>c. cl_sector c = s) new = (if fst e = s then new else [])" for s
    using new(3) by (auto simp: filter_empty_conv filter_id_conv)
  have "map cl_stocks (filter (\<lambda>c. cl_sector c = s) cs)
            = map cl_stocks (filter (\<lambda>c. cl_sector c = s) acc)
              @ concat (map (\<lambda>e. if fst e = s then keptGroups (map ticker (snd e)) else [])
                          (e # entries))" for s
    using cs(3) new(2) by (simp add: f)
  moreover have "(\<forall>c \<in> set acc. risk_score c = js_min2 (Fin 100) (js_mul (avg_correlation c) (Fin 100)))
        \<longrightarrow> (\<forall>c \<in> set cs. risk_score c = js_min2 (Fin 100) (js_mul (avg_correlation c) (Fin 100)))"
    using cs(2) new(3) by auto
  ultimately show ?case using step cs(1) by simp
qed

lemma concat_by_key:
  "distinct (map fst es) \<Longrightarrow> \<forall>e \<in> set es. snd e = G (fst e) \<Longrightarrow>
   concat (map (\<lambda>e. if fst e = s then F (snd e) else []) es)
     = (if s \<in> fst ` set es then F (G s) else [])"
proof (induction es)
  case Nil
  show ?case by simp
next
  case (Cons e es)
  show ?case
  proof (cases "fst e = s")
    case True
    then have "s \<notin> fst ` set es" using Cons.prems(1) by auto
    then show ?thesis using Cons True by auto
  next
    case False
    then show ?thesis using Cons by auto
  qed
qed

lemma clusters_by_sector:
  assumes "\<forall>st \<in> set stocks. sector st \<notin> set object_prototype_keys"
  shows "\<exists>clusters. calculateCorrelationClusters stocks = Inr clusters
     \<and> (\<forall>s. mset (map cl_stocks (filter (\<lambda>c. cl_sector c = s) clusters))
            = mset (keptGroups (map ticker (filter (\<lambda>st. sector st = s) stocks))))"
proof -
  obtain groups where g: "stocksBySector stocks = Inr groups" "grouped stocks groups"
    using stocksBySector_grouped [OF assms] by blast
  let ?es = "Object_entries groups"
  have ms: "mset ?es = mset groups" by (rule mset_Object_entries)
  then have st: "set ?es = set groups" by (metis set_mset_mset)
  have "mset (map fst ?es) = mset (map fst groups)" using ms by (metis mset_map)
  then have d: "distinct (map fst ?es)"
    using g(2) by (metis grouped_def mset_eq_imp_distinct_iff)
  have G: "\<forall>e \<in> set ?es. snd e = (\<lambda>k. filter (\<lambda>st. sector st = k) stocks) (fst e)"
    using g(2) st by (simp add: grouped_def)
  have keys: "fst ` set ?es = sector ` set stocks"
    using g(2) st by (simp add: grouped_def)
  obtain cs where cs: "foldl sectorStep (Inr []) ?es = Inr cs"
    "\<forall>s. map cl_stocks (filter (\<lambda>c. cl_sector c = s) cs)
            = concat (map (\<lambda>e. if fst e = s then keptGroups (map ticker (snd e)) else []) ?es)"
    using foldl_sectorStep_groups [of "[]" ?es] by auto
  have per: "map cl_stocks (filter (\<lambda>c. cl_sector c = s) cs)
      = keptGroups (map ticker (filter (\<lambda>st. sector st = s) stocks))" for s
  proof (cases "s \<in> sector ` set stocks")
    case True
    then show ?thesis
      using cs(2) concat_by_key [OF d G, of s "\<lambda>g. keptGroups (map ticker g)"] keys by simp
  next
    case False
    then have "filter (\<lambda>st. sector st = s) stocks = []"
      by (auto simp: filter_empty_conv)
    then show ?thesis
      using cs(2) concat_by_key [OF d G, of s "\<lambda>g. keptGroups (map ticker g)"] keys False
      by (simp add: keptGroups_Nil)
  qed
  let ?out = "js_sort (\<lambda>a b. js_sub (avg_correlation b) (avg_correlation a)) cs"
  have out: "calculateCorrelationClusters stocks = Inr ?out"
    by (simp add: calculateCorrelationClusters_def g(1) cs(1))
  have "mset (map cl_stocks (filter (\<lambda>c. cl_sector c = s) ?out))
      = mset (keptGroups (map ticker (filter (\<lambda>st. sector st = s) stocks)))" for s
  proof -
    have "mset (map cl_stocks (filter (\<lambda>c. cl_sector c = s) ?out))
        = mset (map cl_stocks (filter (\<lambda>c. cl_sector c = s) cs))"
      by (simp add: mset_js_sort)
    then show ?thesis by (simp only: per)
  qed
  then show ?thesis using out by blast
qed


lemma clusters_risk:
  assumes "calculateCorrelationClusters stocks = Inr clusters" "c \<in> set clusters"
  shows "risk_score c = js_min2 (Fin 100) (js_mul (avg_correlation c) (Fin 100))"
proof -
  obtain groups where g: "stocksBySector stocks = Inr groups"
    using assms(1) by (auto simp: calculateCorrelationClusters_def split: sum.splits)
  obtain cs where cs: "foldl sectorStep (Inr []) (Object_entries groups) = Inr cs"
    "\<forall>c \<in> set cs. risk_score c = js_min2 (Fin 100) (js_mul (avg_correlation c) (Fin 100))"
    using foldl_sectorStep_groups [of "[]" "Object_entries groups"] by auto
  have "clusters = js_sort (\<lambda>a b. js_sub (avg_correlation b) (avg_correlation a)) cs"
    using assms(1) by (simp add: calculateCorrelationClusters_def g cs(1))
  then have "c \<in> set cs" using assms(2) by (simp add: set_js_sort)
  then show ?thesis using cs(2) by blast
qed

text \<open>
  C7. Every cluster that \<open>calculateCorrelationClusters\<close> returns has
  \<open>risk_score = Math.min(100, avg_correlation * 100)\<close>: for a finite average \<open>a\<close> the
  score is \<open>min 100 (a * 100)\<close>, bounded above only, so a negative average gives the
  negative score \<open>a * 100\<close>, not \<open>0\<close>.
\<close>

theorem risk_score_clamped_above_only:
  assumes "calculateCorrelationClusters stocks = Inr clusters" "c \<in> set clusters"
  shows "risk_score c = js_min2 (Fin 100) (js_mul (avg_correlation c) (Fin 100))
    \<and> (\<forall>a. avg_correlation c = Fin a \<longrightarrow> risk_score c = Fin (min 100 (a * 100)))
    \<and> (\<forall>a. avg_correlation c = Fin a \<and> a < 0 \<longrightarrow> risk_score c = Fin (a * 100) \<and> a * 100 < 0)"
proof -
  have r: "risk_score c = js_min2 (Fin 100) (js_mul (avg_correlation c) (Fin 100))"
    using assms by (rule clusters_risk)
  have m: "risk_score c = Fin (min 100 (a * 100))" if "avg_correlation c = Fin a" for a
    using r that by (simp add: js_min2_def min_def)
  have n: "risk_score c = Fin (a * 100) \<and> a * 100 < 0" if "avg_correlation c = Fin a" "a < 0" for a
    using m [OF that(1)] that(2) by (simp add: min_def)
  show ?thesis using r m n by blast
qed

text \<open>
  C5. On a batch in which no sector is named like a property of \<open>Object.prototype\<close>
  (such a name makes the grouping throw), \<open>calculateCorrelationClusters\<close> returns, for
  every sector, one cluster for each consecutive group of five of the sector's tickers
  in batch order that has at least two members: a final group of two, three or four
  tickers is kept, a final single ticker is dropped. A sector with exactly four tickers
  yields exactly one cluster, holding all four.
\<close>

theorem clusters_are_consecutive_groups_of_five:
  assumes "\<forall>st \<in> set stocks. sector st \<notin> set object_prototype_keys"
  shows "\<exists>clusters. calculateCorrelationClusters stocks = Inr clusters
    \<and> (\<forall>s. mset (map cl_stocks (filter (\<lambda>c. cl_sector c = s) clusters))
           = mset (filter (\<lambda>g. 2 \<le> length g)
               (consecutiveGroups (map ticker (filter (\<lambda>st. sector st = s) stocks)))))
    \<and> (\<forall>s. length (filter (\<lambda>st. sector st = s) stocks) = 4 \<longrightarrow>
           map cl_stocks (filter (\<lambda>c. cl_sector c = s) clusters)
             = [map ticker (filter (\<lambda>st. sector st = s) stocks)])"
proof -
  obtain clusters where c: "calculateCorrelationClusters stocks = Inr clusters"
    "\<forall>s. mset (map cl_stocks (filter (\<lambda>c. cl_sector c = s) clusters))
            = mset (keptGroups (map ticker (filter (\<lambda>st. sector st = s) stocks)))"
    using clusters_by_sector [OF assms] by blast
  have four: "map cl_stocks (filter (\<lambda>c. cl_sector c = s) clusters)
             = [map ticker (filter (\<lambda>st. sector st = s) stocks)]"
    if "length (filter (\<lambda>st. sector st = s) stocks) = 4" for s
  proof -
    let ?ts = "map ticker (filter (\<lambda>st. sector st = s) stocks)"
    have len: "length ?ts = 4" using that by simp
    then have ne: "?ts \<noteq> []" by auto
    have k: "keptGroups ?ts = [?ts]"
      using len by (subst keptGroups_step [OF ne]) (simp add: clusterSize_def keptGroups_Nil)
    have "mset (map cl_stocks (filter (\<lambda>c. cl_sector c = s) clusters)) = mset [?ts]"
      by (simp only: c(2) k)
    then show ?thesis by (simp only: mset.simps mset_single_iff)
  qed
  show ?thesis using c four by (auto simp: keptGroups_def)
qed


subsection \<open>Examples\<close>

lemma not_index_Tech: "\<not> is_array_index ''Tech''"
  by (simp add: is_array_index_def is_digit_def)

lemma show_nat_1: "show_nat 1 = ''1''" "show_nat 2 = ''2''"
  by code_simp+

lemma show_nat_Suc: "show_nat (Suc 0) = ''1''" "show_nat (Suc (Suc 0)) = ''2''"
  using show_nat_1 by (simp_all add: numeral_2_eq_2)

lemma groups_sevenTech: "stocksBySector sevenTech = Inr [(''Tech'', sevenTech)]"
  by (simp add: stocksBySector_def sevenTech_def groupStep_def object_prototype_keys_def
      emptyStock_def)

lemma pearson_empty:
  "calculatePearsonCorrelation (returns5 (emptyStock a s)) (returns5 (emptyStock b s')) = Fin 0"
  by (simp add: calculatePearsonCorrelation_def returns5_def to_double_def emptyStock_def
      d_add_def d_sub_def d_mul_def d_sqrt_def js_nth_def js_eq_def Let_def)

lemma ticker_emptyStock [simp]: "ticker (emptyStock t s) = t"
  by (simp add: emptyStock_def)

lemma sector_emptyStock [simp]: "sector (emptyStock t s) = s"
  by (simp add: emptyStock_def)

lemma clusters_sevenTech:
  "calculateCorrelationClusters sevenTech =
     Inr [\<lparr> cl_name = ''Tech Cluster 1'', cl_sector = ''Tech'',
            cl_stocks = [''T1'', ''T2'', ''T3'', ''T4'', ''T5''],
            avg_correlation = Fin 0, risk_score = Fin 0 \<rparr>,
          \<lparr> cl_name = ''Tech Cluster 2'', cl_sector = ''Tech'',
            cl_stocks = [''T6'', ''T7''],
            avg_correlation = Fin 0, risk_score = Fin 0 \<rparr>]"
proof -
  have loop: "clusterLoop (correlationTable sevenTech) ''Tech'' sevenTech 0 [] =
     Inr [\<lparr> cl_name = ''Tech Cluster 1'', cl_sector = ''Tech'',
            cl_stocks = [''T1'', ''T2'', ''T3'', ''T4'', ''T5''],
            avg_correlation = Fin 0, risk_score = Fin 0 \<rparr>,
          \<lparr> cl_name = ''Tech Cluster 2'', cl_sector = ''Tech'',
            cl_stocks = [''T6'', ''T7''],
            avg_correlation = Fin 0, risk_score = Fin 0 \<rparr>]"
    by (simp add: clusterLoop.simps sevenTech_def clusterSize_def
        makeCluster_def clusterPairs_def enumerate_eq_zip pairStep_def readCorrelation_def
        correlationTable_def correlationRow_def pearson_empty show_nat_Suc js_min2_def Let_def
        upt_conv_Cons)
  show ?thesis
    by (simp add: calculateCorrelationClusters_def groups_sevenTech Object_entries_def
        not_index_Tech sectorStep_def loop js_sort_def js_gt_def)
qed


text \<open>
  C4, as stated, fails: seven records of the sector \<open>Tech\<close> give two clusters, and the
  trailing tickers \<open>T6\<close> and \<open>T7\<close> form the second one.
\<close>

theorem seven_records_one_cluster_counterexample:
  "map sector sevenTech = replicate 7 ''Tech''
   \<and> calculateCorrelationClusters sevenTech =
     Inr [\<lparr> cl_name = ''Tech Cluster 1'', cl_sector = ''Tech'',
            cl_stocks = [''T1'', ''T2'', ''T3'', ''T4'', ''T5''],
            avg_correlation = Fin 0, risk_score = Fin 0 \<rparr>,
          \<lparr> cl_name = ''Tech Cluster 2'', cl_sector = ''Tech'',
            cl_stocks = [''T6'', ''T7''],
            avg_correlation = Fin 0, risk_score = Fin 0 \<rparr>]"
  using clusters_sevenTech by (simp add: sevenTech_def numeral_eq_Suc)

lemma keptGroups_seven:
  assumes "length ts = 7"
  shows "keptGroups ts = [take 5 ts, drop 5 ts]"
proof -
  have ne: "ts \<noteq> []" using assms by auto
  have ne2: "drop clusterSize ts \<noteq> []" using assms by (simp add: clusterSize_def)
  show ?thesis
    using assms
    by (subst keptGroups_step [OF ne], subst keptGroups_step [OF ne2])
       (simp add: clusterSize_def keptGroups_Nil)
qed

text \<open>
  C4, amended. On a batch in which some sector has exactly seven records (and no sector
  is named like a property of \<open>Object.prototype\<close>), the clustering returns exactly two
  clusters for that sector: one of its first five tickers in batch order, and one of the
  trailing two.
\<close>

theorem seven_records_give_two_clusters:
  assumes "\<forall>st \<in> set stocks. sector st \<notin> set object_prototype_keys"
    and "length (filter (\<lambda>st. sector st = s) stocks) = 7"
  shows "\<exists>clusters. calculateCorrelationClusters stocks = Inr clusters
    \<and> mset (map cl_stocks (filter (\<lambda>c. cl_sector c = s) clusters))
        = {# take 5 (map ticker (filter (\<lambda>st. sector st = s) stocks)),
             drop 5 (map ticker (filter (\<lambda>st. sector st = s) stocks)) #}
    \<and> length (filter (\<lambda>c. cl_sector c = s) clusters) = 2"
proof -
  let ?ts = "map ticker (filter (\<lambda>st. sector st = s) stocks)"
  obtain clusters where c: "calculateCorrelationClusters stocks = Inr clusters"
    "\<forall>s. mset (map cl_stocks (filter (\<lambda>c. cl_sector c = s) clusters))
            = mset (keptGroups (map ticker (filter (\<lambda>st. sector st = s) stocks)))"
    using clusters_by_sector [OF assms(1)] by blast
  have k: "keptGroups ?ts = [take 5 ?ts, drop 5 ?ts]"
    using assms(2) by (intro keptGroups_seven) simp
  have m: "mset (map cl_stocks (filter (\<lambda>c. cl_sector c = s) clusters))
      = mset [take 5 ?ts, drop 5 ?ts]"
    by (simp only: c(2) k)
  then have "length (map cl_stocks (filter (\<lambda>c. cl_sector c = s) clusters))
      = length [take 5 ?ts, drop 5 ?ts]"
    by (rule mset_eq_length)
  then have l: "length (filter (\<lambda>c. cl_sector c = s) clusters) = 2" by simp
  have "mset [take 5 ?ts, drop 5 ?ts] = {# take 5 ?ts, drop 5 ?ts #}"
    by (simp add: add_mset_commute)
  then show ?thesis using c(1) m l by metis
qed

lemma proto_free_Tech: "''Tech'' \<notin> set object_prototype_keys"
  "''Energy'' \<notin> set object_prototype_keys"
  by (simp_all add: object_prototype_keys_def)

theorem seven_records_give_two_clusters_witness:
  "length (filter (\<lambda>st. sector st = ''Tech'') sevenTech) = 7
   \<and> (\<exists>clusters. calculateCorrelationClusters sevenTech = Inr clusters
        \<and> mset (map cl_stocks (filter (\<lambda>c. cl_sector c = ''Tech'') clusters))
            = {# [''T1'', ''T2'', ''T3'', ''T4'', ''T5''], [''T6'', ''T7''] #}
        \<and> length (filter (\<lambda>c. cl_sector c = ''Tech'') clusters) = 2)"
proof -
  have h1: "\<forall>st \<in> set sevenTech. sector st \<notin> set object_prototype_keys"
    using proto_free_Tech(1) by (simp add: sevenTech_def)
  have h2: "length (filter (\<lambda>st. sector st = ''Tech'') sevenTech) = 7"
    by (simp add: sevenTech_def)
  have ts: "map ticker (filter (\<lambda>st. sector st = ''Tech'') sevenTech)
      = [''T1'', ''T2'', ''T3'', ''T4'', ''T5'', ''T6'', ''T7'']"
    by (simp add: sevenTech_def)
  show ?thesis
    using seven_records_give_two_clusters [OF h1 h2] h2 unfolding ts by simp
qed

theorem clusters_are_consecutive_groups_of_five_witness:
  "length (filter (\<lambda>st. sector st = ''Energy'') (fourEnergy @ sevenTech)) = 4
   \<and> (\<exists>clusters. calculateCorrelationClusters (fourEnergy @ sevenTech) = Inr clusters
        \<and> map cl_stocks (filter (\<lambda>c. cl_sector c = ''Energy'') clusters)
            = [[''E1'', ''E2'', ''E3'', ''E4'']]
        \<and> mset (map cl_stocks (filter (\<lambda>c. cl_sector c = ''Tech'') clusters))
            = mset [[''T1'', ''T2'', ''T3'', ''T4'', ''T5''], [''T6'', ''T7'']])"
proof -
  have h1: "\<forall>st \<in> set (fourEnergy @ sevenTech). sector st \<notin> set object_prototype_keys"
    using proto_free_Tech by (auto simp: sevenTech_def fourEnergy_def)
  have h2: "length (filter (\<lambda>st. sector st = ''Energy'') (fourEnergy @ sevenTech)) = 4"
    by (simp add: sevenTech_def fourEnergy_def)
  have e: "map ticker (filter (\<lambda>st. sector st = ''Energy'') (fourEnergy @ sevenTech))
      = [''E1'', ''E2'', ''E3'', ''E4'']"
    by (simp add: sevenTech_def fourEnergy_def)
  have t: "filter (\<lambda>g. 2 \<le> length g) (consecutiveGroups
       (map ticker (filter (\<lambda>st. sector st = ''Tech'') (fourEnergy @ sevenTech))))
      = [[''T1'', ''T2'', ''T3'', ''T4'', ''T5''], [''T6'', ''T7'']]"
    by (simp add: sevenTech_def fourEnergy_def consecutiveGroups.simps clusterSize_def)
  obtain clusters where c:
    "calculateCorrelationClusters (fourEnergy @ sevenTech) = Inr clusters"
    "\<forall>s. mset (map cl_stocks (filter (\<lambda>c. cl_sector c = s) clusters))
           = mset (filter (\<lambda>g. 2 \<le> length g)
               (consecutiveGroups (map ticker (filter (\<lambda>st. sector st = s) (fourEnergy @ sevenTech)))))"
    "\<forall>s. length (filter (\<lambda>st. sector st = s) (fourEnergy @ sevenTech)) = 4 \<longrightarrow>
           map cl_stocks (filter (\<lambda>c. cl_sector c = s) clusters)
             = [map ticker (filter (\<lambda>st. sector st = s) (fourEnergy @ sevenTech))]"
    using clusters_are_consecutive_groups_of_five [OF h1] by blast
  have en: "map cl_stocks (filter (\<lambda>c. cl_sector c = ''Energy'') clusters)
            = [[''E1'', ''E2'', ''E3'', ''E4'']]"
    using c(3) h2 e by metis
  have te: "mset (map cl_stocks (filter (\<lambda>c. cl_sector c = ''Tech'') clusters))
            = mset [[''T1'', ''T2'', ''T3'', ''T4'', ''T5''], [''T6'', ''T7'']]"
    using c(2) t by metis
  show ?thesis
    by (intro conjI exI [of _ clusters]) (rule h2 c(1) en te)+
qed


lemma pearson_rising_falling:
  "calculatePearsonCorrelation (returns5 rising) (returns5 falling) = Fin (- 1)"
  "calculatePearsonCorrelation (returns5 falling) (returns5 rising) = Fin (- 1)"
proof -
  have sq: "sqrt 2500 = 50"
    by (rule real_sqrt_unique) simp_all
  have r: "returns5 rising = [Fin 1, Fin 2, Fin 3, Fin 4, Fin 5]"
    by (simp add: returns5_def to_double_def rising_def emptyStock_def round64_numeral)
  have f: "returns5 falling = [Fin 5, Fin 4, Fin 3, Fin 2, Fin 1]"
    by (simp add: returns5_def to_double_def falling_def emptyStock_def round64_numeral)
  show "calculatePearsonCorrelation (returns5 rising) (returns5 falling) = Fin (- 1)"
    unfolding r f
    by (simp add: calculatePearsonCorrelation_def Let_def d_add_def d_sub_def d_mul_def
        d_div_def d_sqrt_def js_eq_def js_nth_def round64_numeral round64_neg_numeral sq)
  show "calculatePearsonCorrelation (returns5 falling) (returns5 rising) = Fin (- 1)"
    unfolding r f
    by (simp add: calculatePearsonCorrelation_def Let_def d_add_def d_sub_def d_mul_def
        d_div_def d_sqrt_def js_eq_def js_nth_def round64_numeral round64_neg_numeral sq)
qed

lemma clusters_rising_falling:
  "calculateCorrelationClusters [rising, falling] =
     Inr [\<lparr> cl_name = ''Tech Cluster 1'', cl_sector = ''Tech'',
            cl_stocks = [''UP'', ''DOWN''],
            avg_correlation = Fin (- 1), risk_score = Fin (- 100) \<rparr>]"
proof -
  have t: "ticker rising = ''UP''" "ticker falling = ''DOWN''"
    "sector rising = ''Tech''" "sector falling = ''Tech''"
    by (simp_all add: rising_def falling_def emptyStock_def)
  have g: "stocksBySector [rising, falling] = Inr [(''Tech'', [rising, falling])]"
    by (simp add: stocksBySector_def groupStep_def object_prototype_keys_def t)
  have loop: "clusterLoop (correlationTable [rising, falling]) ''Tech'' [rising, falling] 0 [] =
     Inr [\<lparr> cl_name = ''Tech Cluster 1'', cl_sector = ''Tech'',
            cl_stocks = [''UP'', ''DOWN''],
            avg_correlation = Fin (- 1), risk_score = Fin (- 100) \<rparr>]"
    by (simp add: clusterLoop.simps clusterSize_def
        makeCluster_def clusterPairs_def enumerate_eq_zip pairStep_def readCorrelation_def
        correlationTable_def correlationRow_def pearson_rising_falling show_nat_Suc js_min2_def
        Let_def upt_conv_Cons t)
  show ?thesis
    by (simp add: calculateCorrelationClusters_def g Object_entries_def
        not_index_Tech sectorStep_def loop js_sort_def)
qed

theorem risk_score_clamped_above_only_witness:
  "calculateCorrelationClusters [rising, falling] =
     Inr [\<lparr> cl_name = ''Tech Cluster 1'', cl_sector = ''Tech'',
            cl_stocks = [''UP'', ''DOWN''],
            avg_correlation = Fin (- 1), risk_score = Fin (- 100) \<rparr>]
   \<and> Fin (- 100) = js_min2 (Fin 100) (js_mul (Fin (- 1)) (Fin 100))
   \<and> Fin (- 100) = Fin (min 100 (- 1 * 100))
   \<and> (- 1 :: real) < 0 \<and> (- 1 * 100 :: real) < 0"
proof -
  let ?c = "\<lparr> cl_name = ''Tech Cluster 1'', cl_sector = ''Tech'',
            cl_stocks = [''UP'', ''DOWN''],
            avg_correlation = Fin (- 1), risk_score = Fin (- 100) \<rparr>"
  have mem: "?c \<in> set [?c]" by simp
  note t = risk_score_clamped_above_only [OF clusters_rising_falling mem]
  have 1: "risk_score ?c = js_min2 (Fin 100) (js_mul (avg_correlation ?c) (Fin 100))"
    using t by blast
  have a: "avg_correlation ?c = Fin (- 1)" by simp
  have 2: "risk_score ?c = Fin (min 100 (- 1 * 100))"
    using t a by blast
  have 3: "(- 1 * 100 :: real) < 0"
    using t a by simp
  show ?thesis
    using clusters_rising_falling 1 2 3 by simp
qed


end
